theory Spec2Isabelle
  imports Main "HOL-Library.Word" "HOL-Library.Product_Lexorder"
    "HOL-Library.List_Lexorder" "HOL-Library.Char_ord" "HOL-Library.Multiset"
begin

unbundle bit_operations_syntax

section \<open>Python values\<close>

text \<open>
  The JSONB columns and the request bodies hold JSON values.  Python reads them as
  \<^verbatim>\<open>None\<close>, \<^verbatim>\<open>bool\<close>, \<^verbatim>\<open>int\<close>, \<^verbatim>\<open>str\<close>, \<^verbatim>\<open>list\<close> and \<^verbatim>\<open>dict\<close>
  (string keys, kept in insertion order).  Floating-point numbers are left out of the model.
  A Python \<^verbatim>\<open>str\<close> is modelled by a \<^typ>\<open>string\<close> whose characters are the code points
  0 to 255.
\<close>

datatype json =
    JNull
  | JBool bool
  | JInt int
  | JStr string
  | JList "json list"
  | JObj "(string \<times> json) list"

text \<open>Truthiness, as \<^verbatim>\<open>if x\<close>, \<^verbatim>\<open>not x\<close> and \<^verbatim>\<open>all([...])\<close> test it.\<close>

fun truthy :: "json \<Rightarrow> bool" where
  "truthy JNull = False"
| "truthy (JBool b) = b"
| "truthy (JInt n) = (n \<noteq> 0)"
| "truthy (JStr s) = (s \<noteq> [])"
| "truthy (JList xs) = (xs \<noteq> [])"
| "truthy (JObj kvs) = (kvs \<noteq> [])"

definition truthy_str :: "string option \<Rightarrow> bool" where
  "truthy_str s = (case s of None \<Rightarrow> False | Some t \<Rightarrow> t \<noteq> [])"

text \<open>
  Python's \<^verbatim>\<open>==\<close> on these values: \<^verbatim>\<open>True == 1\<close> and \<^verbatim>\<open>False == 0\<close> hold, lists are
  compared element by element, and two dicts are equal when they have the same number of
  keys and every key of the first is bound to an equal value in the second.
\<close>

primrec py_eq :: "json \<Rightarrow> json \<Rightarrow> bool" where
  "py_eq JNull y = (case y of JNull \<Rightarrow> True | _ \<Rightarrow> False)"
| "py_eq (JBool b) y =
     (case y of JBool c \<Rightarrow> b = c | JInt n \<Rightarrow> (if b then 1 else 0) = n | _ \<Rightarrow> False)"
| "py_eq (JInt m) y =
     (case y of JInt n \<Rightarrow> m = n | JBool c \<Rightarrow> m = (if c then 1 else 0) | _ \<Rightarrow> False)"
| "py_eq (JStr s) y = (case y of JStr t \<Rightarrow> s = t | _ \<Rightarrow> False)"
| "py_eq (JList xs) y =
     (case y of JList ys \<Rightarrow> list_all2 (\<lambda>f v. f v) (map py_eq xs) ys | _ \<Rightarrow> False)"
| "py_eq (JObj kvs) y =
     (case y of
        JObj kws \<Rightarrow>
          length kvs = length kws \<and>
          list_all (\<lambda>(k, f). case map_of kws k of None \<Rightarrow> False | Some w \<Rightarrow> f w)
            (map (map_prod id py_eq) kvs)
      | _ \<Rightarrow> False)"

text \<open>\<^verbatim>\<open>d.get(key)\<close>: the value bound to the key, \<^verbatim>\<open>None\<close> when the key is absent.\<close>

definition dict_get :: "(string \<times> json) list \<Rightarrow> string \<Rightarrow> json" where
  "dict_get d k = (case map_of d k of None \<Rightarrow> JNull | Some v \<Rightarrow> v)"

type_synonym uuid = string

section \<open>Naive datetimes\<close>

text \<open>
  The \<^verbatim>\<open>DateTime\<close> columns hold naive \<^verbatim>\<open>datetime\<close> objects.  Python compares two of
  them as the tuples (year, month, day, hour, minute, second, microsecond).  The clock
  (\<^verbatim>\<open>datetime.utcnow()\<close>) is an argument \<open>now\<close> of every function that reads it.
\<close>

record datetime =
  year :: nat
  month :: nat
  day :: nat
  hour :: nat
  minute :: nat
  second :: nat
  microsecond :: nat

definition dt_tuple :: "datetime \<Rightarrow> nat \<times> nat \<times> nat \<times> nat \<times> nat \<times> nat \<times> nat" where
  "dt_tuple d = (year d, month d, day d, hour d, minute d, second d, microsecond d)"

definition dt_le :: "datetime \<Rightarrow> datetime \<Rightarrow> bool" where
  "dt_le a b = (dt_tuple a \<le> dt_tuple b)"

definition decimal_digit :: "nat \<Rightarrow> char" where
  "decimal_digit n = ''0123456789'' ! (n mod 10)"

function nat_decimal :: "nat \<Rightarrow> string" where
  "nat_decimal n =
     (if n < 10 then [decimal_digit n] else nat_decimal (n div 10) @ [decimal_digit n])"
  by pat_completeness auto
termination
  by (relation "measure (\<lambda>n. n)") auto

declare nat_decimal.simps [simp del]

text \<open>\<^verbatim>\<open>"%04d"\<close>, \<^verbatim>\<open>"%02d"\<close> and \<^verbatim>\<open>"%06d"\<close>: decimal digits, padded with zeros on the left.\<close>

definition zero_pad :: "nat \<Rightarrow> nat \<Rightarrow> string" where
  "zero_pad w n = replicate (w - length (nat_decimal n)) (CHR ''0'') @ nat_decimal n"

text \<open>
  \<^verbatim>\<open>datetime.isoformat()\<close> of a naive datetime: \<^verbatim>\<open>YYYY-MM-DDTHH:MM:SS\<close>, followed by
  \<^verbatim>\<open>.ffffff\<close> when the microseconds are not zero.
\<close>

definition isoformat :: "datetime \<Rightarrow> string" where
  "isoformat d =
     zero_pad 4 (year d) @ ''-'' @ zero_pad 2 (month d) @ ''-'' @ zero_pad 2 (day d) @ ''T'' @
     zero_pad 2 (hour d) @ '':'' @ zero_pad 2 (minute d) @ '':'' @ zero_pad 2 (second d) @
     (if microsecond d \<noteq> 0 then ''.'' @ zero_pad 6 (microsecond d) else [])"

section \<open>Deterministic JSON serialization\<close>

text \<open>
  \<^verbatim>\<open>json.dumps(value, sort_keys=True, default=str)\<close> with the default separators
  (\<^verbatim>\<open>", "\<close> and \<^verbatim>\<open>": "\<close>) and \<^verbatim>\<open>ensure_ascii=True\<close>.  The values hashed below are
  JSON values already, so \<^verbatim>\<open>default\<close> is never called.
\<close>

definition str_int :: "int \<Rightarrow> string" where
  "str_int n = (if n < 0 then ''-'' @ nat_decimal (nat (- n)) else nat_decimal (nat n))"

definition hex_char :: "nat \<Rightarrow> char" where
  "hex_char n = ''0123456789abcdef'' ! (n mod 16)"

text \<open>
  The string encoder of \<^verbatim>\<open>json\<close> (\<^verbatim>\<open>py_encode_basestring_ascii\<close>): the quote and the
  backslash are escaped, the control characters have their short escapes or
  \<^verbatim>\<open>\u00XX\<close>, and so has every character outside \<^verbatim>\<open>' '\<close> to \<^verbatim>\<open>'~'\<close>.
\<close>

definition escape_char :: "char \<Rightarrow> string" where
  "escape_char c =
     (if c = CHR 0x22 then [CHR 0x5C, CHR 0x22]
      else if c = CHR 0x5C then [CHR 0x5C, CHR 0x5C]
      else if c = CHR 0x0A then [CHR 0x5C, CHR ''n'']
      else if c = CHR 0x0D then [CHR 0x5C, CHR ''r'']
      else if c = CHR 0x09 then [CHR 0x5C, CHR ''t'']
      else if c = CHR 0x08 then [CHR 0x5C, CHR ''b'']
      else if c = CHR 0x0C then [CHR 0x5C, CHR ''f'']
      else if (of_char c :: nat) < 32 \<or> 126 < (of_char c :: nat)
        then [CHR 0x5C, CHR ''u'', CHR ''0'', CHR ''0'',
              hex_char ((of_char c :: nat) div 16), hex_char (of_char c)]
      else [c])"

definition encode_str :: "string \<Rightarrow> string" where
  "encode_str s = [CHR 0x22] @ concat (map escape_char s) @ [CHR 0x22]"

fun join :: "string \<Rightarrow> string list \<Rightarrow> string" where
  "join sep [] = []"
| "join sep [x] = x"
| "join sep (x # y # ys) = x @ sep @ join sep (y # ys)"

text \<open>
  With \<^verbatim>\<open>sort_keys=True\<close> the items of every dict are written in the order of their keys
  (Python compares strings code point by code point).  The values are serialized first
  and the items sorted by key afterwards, which gives the same text.
\<close>

primrec json_dumps :: "json \<Rightarrow> string" where
  "json_dumps JNull = ''null''"
| "json_dumps (JBool b) = (if b then ''true'' else ''false'')"
| "json_dumps (JInt n) = str_int n"
| "json_dumps (JStr s) = encode_str s"
| "json_dumps (JList xs) = ''['' @ join '', '' (map json_dumps xs) @ '']''"
| "json_dumps (JObj kvs) =
     ''{'' @
     join '', ''
       (map (\<lambda>(k, v). encode_str k @ '': '' @ v)
          (sort_key fst (map (map_prod id json_dumps) kvs))) @
     ''}''"

section \<open>SHA-256\<close>

text \<open>
  \<^verbatim>\<open>hashlib.sha256(data).hexdigest()\<close>, after FIPS 180-4: the message is padded to a
  multiple of 64 bytes, cut into blocks of sixteen 32-bit words, and each block is
  compressed into the state of eight words; the digest is the state in hexadecimal.
\<close>

type_synonym w32 = "32 word"

definition Ch :: "w32 \<Rightarrow> w32 \<Rightarrow> w32 \<Rightarrow> w32" where
  "Ch x y z = (x AND y) XOR (NOT x AND z)"

definition Maj :: "w32 \<Rightarrow> w32 \<Rightarrow> w32 \<Rightarrow> w32" where
  "Maj x y z = (x AND y) XOR (x AND z) XOR (y AND z)"

definition rotr :: "nat \<Rightarrow> w32 \<Rightarrow> w32" where
  "rotr n x = word_rotr n x"

definition big_sigma0 :: "w32 \<Rightarrow> w32" where
  "big_sigma0 x = rotr 2 x XOR rotr 13 x XOR rotr 22 x"

definition big_sigma1 :: "w32 \<Rightarrow> w32" where
  "big_sigma1 x = rotr 6 x XOR rotr 11 x XOR rotr 25 x"

definition small_sigma0 :: "w32 \<Rightarrow> w32" where
  "small_sigma0 x = rotr 7 x XOR rotr 18 x XOR drop_bit 3 x"

definition small_sigma1 :: "w32 \<Rightarrow> w32" where
  "small_sigma1 x = rotr 17 x XOR rotr 19 x XOR drop_bit 10 x"

definition sha256_K :: "w32 list" where
  "sha256_K = [
    0x428A2F98, 0x71374491, 0xB5C0FBCF, 0xE9B5DBA5, 0x3956C25B, 0x59F111F1, 0x923F82A4, 0xAB1C5ED5,
    0xD807AA98, 0x12835B01, 0x243185BE, 0x550C7DC3, 0x72BE5D74, 0x80DEB1FE, 0x9BDC06A7, 0xC19BF174,
    0xE49B69C1, 0xEFBE4786, 0x0FC19DC6, 0x240CA1CC, 0x2DE92C6F, 0x4A7484AA, 0x5CB0A9DC, 0x76F988DA,
    0x983E5152, 0xA831C66D, 0xB00327C8, 0xBF597FC7, 0xC6E00BF3, 0xD5A79147, 0x06CA6351, 0x14292967,
    0x27B70A85, 0x2E1B2138, 0x4D2C6DFC, 0x53380D13, 0x650A7354, 0x766A0ABB, 0x81C2C92E, 0x92722C85,
    0xA2BFE8A1, 0xA81A664B, 0xC24B8B70, 0xC76C51A3, 0xD192E819, 0xD6990624, 0xF40E3585, 0x106AA070,
    0x19A4C116, 0x1E376C08, 0x2748774C, 0x34B0BCB5, 0x391C0CB3, 0x4ED8AA4A, 0x5B9CCA4F, 0x682E6FF3,
    0x748F82EE, 0x78A5636F, 0x84C87814, 0x8CC70208, 0x90BEFFFA, 0xA4506CEB, 0xBEF9A3F7, 0xC67178F2]"

type_synonym sha_state = "w32 \<times> w32 \<times> w32 \<times> w32 \<times> w32 \<times> w32 \<times> w32 \<times> w32"

definition sha256_H0 :: sha_state where
  "sha256_H0 = (0x6A09E667, 0xBB67AE85, 0x3C6EF372, 0xA54FF53A,
                0x510E527F, 0x9B05688C, 0x1F83D9AB, 0x5BE0CD19)"

text \<open>The message schedule: the sixteen words of the block, extended to sixty-four.\<close>

fun extend_schedule :: "nat \<Rightarrow> w32 list \<Rightarrow> w32 list" where
  "extend_schedule 0 ws = ws"
| "extend_schedule (Suc n) ws =
     (let t = length ws in
      extend_schedule n
        (ws @ [small_sigma1 (ws ! (t - 2)) + ws ! (t - 7) +
               small_sigma0 (ws ! (t - 15)) + ws ! (t - 16)]))"

definition sha256_round :: "sha_state \<Rightarrow> w32 \<times> w32 \<Rightarrow> sha_state" where
  "sha256_round s kw =
     (case s of (a, b, c, d, e, f, g, h) \<Rightarrow>
      case kw of (k, w) \<Rightarrow>
        (let T1 = h + big_sigma1 e + Ch e f g + k + w;
             T2 = big_sigma0 a + Maj a b c
         in (T1 + T2, a, b, c, d + T1, e, f, g)))"

definition add_state :: "sha_state \<Rightarrow> sha_state \<Rightarrow> sha_state" where
  "add_state s t =
     (case s of (a, b, c, d, e, f, g, h) \<Rightarrow>
      case t of (a', b', c', d', e', f', g', h') \<Rightarrow>
        (a + a', b + b', c + c', d + d', e + e', f + f', g + g', h + h'))"

definition sha256_compress :: "sha_state \<Rightarrow> w32 list \<Rightarrow> sha_state" where
  "sha256_compress H block =
     add_state H (foldl sha256_round H (zip sha256_K (extend_schedule 48 block)))"

text \<open>Bytes are kept as 32-bit words below 256.  The length in bits ends the padding.\<close>

definition be64 :: "nat \<Rightarrow> w32 list" where
  "be64 n = map (\<lambda>i. ucast (drop_bit (8 * (7 - i)) (of_nat n :: 64 word)) AND 255) [0..<8]"

definition sha256_pad :: "w32 list \<Rightarrow> w32 list" where
  "sha256_pad msg =
     msg @ [128] @ replicate ((119 - length msg mod 64) mod 64) 0 @ be64 (8 * length msg)"

definition word_at :: "w32 list \<Rightarrow> nat \<Rightarrow> w32" where
  "word_at bs k =
     push_bit 24 (bs ! (4 * k)) OR push_bit 16 (bs ! (4 * k + 1)) OR
     push_bit 8 (bs ! (4 * k + 2)) OR bs ! (4 * k + 3)"

definition sha256_blocks :: "w32 list \<Rightarrow> w32 list list" where
  "sha256_blocks bs =
     map (\<lambda>i. map (\<lambda>j. word_at bs (16 * i + j)) [0..<16]) [0..<length bs div 64]"

definition sha256_digest :: "w32 list \<Rightarrow> sha_state" where
  "sha256_digest msg = foldl sha256_compress sha256_H0 (sha256_blocks (sha256_pad msg))"

definition hex_digit :: "w32 \<Rightarrow> char" where
  "hex_digit n = ''0123456789abcdef'' ! unat (n AND 15)"

definition hex32 :: "w32 \<Rightarrow> string" where
  "hex32 w = map (\<lambda>i. hex_digit (drop_bit (4 * (7 - i)) w)) [0..<8]"

definition hex_state :: "sha_state \<Rightarrow> string" where
  "hex_state s =
     (case s of (a, b, c, d, e, f, g, h) \<Rightarrow>
        hex32 a @ hex32 b @ hex32 c @ hex32 d @ hex32 e @ hex32 f @ hex32 g @ hex32 h)"

text \<open>The argument is the encoded text: one character, one byte.\<close>

definition sha256_hexdigest :: "string \<Rightarrow> string" where
  "sha256_hexdigest s = hex_state (sha256_digest (map of_char s))"

definition is_hex_char :: "char \<Rightarrow> bool" where
  "is_hex_char c = (c \<in> set ''0123456789abcdef'')"

definition is_hex_string :: "string \<Rightarrow> bool" where
  "is_hex_string s = list_all is_hex_char s"

section \<open>Audit events\<close>

subsection \<open>The model: \<^verbatim>\<open>db/models/audit_event.py\<close>\<close>

text \<open>
  A UUID is kept as its canonical text, which is what \<^verbatim>\<open>str(uuid)\<close> returns.  The
  columns the database fills in (\<^verbatim>\<open>sequence_number\<close>, \<^verbatim>\<open>created_at\<close>) and the hash are
  \<^verbatim>\<open>None\<close> on an object that has not been stored.  The primary key \<^verbatim>\<open>id\<close>, which no
  method below reads, is left out.
\<close>

record AuditEvent =
  sequence_number :: "int option"
  event_type :: string
  action :: string
  actor_id :: uuid
  actor_type :: string
  actor_email :: "string option"
  resource_type :: "string option"
  resource_id :: "uuid option"
  resource_name :: "string option"
  context' :: json
  outcome :: string
  previous_hash :: "string option"
  event_hash :: "string option"
  created_at :: "datetime option"
  metadata :: json

definition opt_str :: "string option \<Rightarrow> json" where
  "opt_str s = (case s of None \<Rightarrow> JNull | Some t \<Rightarrow> JStr t)"

text \<open>\<^verbatim>\<open>a or b\<close> on optional strings: \<open>a\<close> when it is a non-empty string, \<open>b\<close> otherwise.\<close>

definition py_or :: "string option \<Rightarrow> string option \<Rightarrow> string option" where
  "py_or a b = (if truthy_str a then a else b)"

definition hash_data :: "AuditEvent \<Rightarrow> string option \<Rightarrow> json" where
  "hash_data e prev =
     JObj [
       (''sequence'', case sequence_number e of None \<Rightarrow> JNull | Some n \<Rightarrow> JInt n),
       (''event_type'', JStr (event_type e)),
       (''action'', JStr (action e)),
       (''actor_id'', JStr (actor_id e)),
       (''actor_type'', JStr (actor_type e)),
       (''resource_type'', opt_str (resource_type e)),
       (''resource_id'', opt_str (resource_id e)),
       (''outcome'', JStr (outcome e)),
       (''context'', context' e),
       (''previous_hash'', opt_str (py_or prev (previous_hash e))),
       (''created_at'', case created_at e of None \<Rightarrow> JNull | Some d \<Rightarrow> JStr (isoformat d))]"

definition compute_hash :: "AuditEvent \<Rightarrow> string option \<Rightarrow> string" where
  "compute_hash e prev = sha256_hexdigest (json_dumps (hash_data e prev))"

definition verify_chain :: "AuditEvent \<Rightarrow> AuditEvent option \<Rightarrow> bool" where
  "verify_chain e previous_event =
     (if sequence_number e = Some 1 then previous_hash e = None
      else if (case previous_event of
                 None \<Rightarrow> False
               | Some p \<Rightarrow> previous_hash e \<noteq> event_hash p) then False
      else event_hash e = Some (compute_hash e None))"

text \<open>
  \<^verbatim>\<open>create_event\<close>: the factory.  It sets the fields it is given and leaves the
  sequence number, the timestamp and the hash to be set after the insert.
\<close>

definition create_event ::
  "string \<Rightarrow> string \<Rightarrow> uuid \<Rightarrow> string \<Rightarrow> string \<Rightarrow> json \<Rightarrow> string option \<Rightarrow> uuid option \<Rightarrow>
   string option \<Rightarrow> string option \<Rightarrow> json \<Rightarrow> string option \<Rightarrow> AuditEvent" where
  "create_event ev_type act a_id a_type outc ctx r_type r_id r_name a_email meta prev =
     \<lparr>sequence_number = None, event_type = ev_type, action = act, actor_id = a_id,
      actor_type = a_type, actor_email = a_email, resource_type = r_type, resource_id = r_id,
      resource_name = r_name, context' = (if truthy ctx then ctx else JObj []),
      outcome = outc, previous_hash = prev, event_hash = None, created_at = None,
      metadata = (if truthy meta then meta else JObj [])\<rparr>"

subsection \<open>The ledger\<close>

text \<open>
  Modelled from the spec: the ledger operations \<^verbatim>\<open>Append\<close> and \<^verbatim>\<open>VerifyChain\<close> of
  section 4.1, which the source does not have (it has the per-event \<^verbatim>\<open>compute_hash\<close>
  and \<^verbatim>\<open>verify_chain\<close> only).  The ledger is the list of stored events, oldest first.
  \<^verbatim>\<open>Append\<close> fails with \<^verbatim>\<open>ConflictError\<close> when the caller's previous hash is not the
  current tip and with \<^verbatim>\<open>TamperDetected\<close> when the stored chain fails re-verification
  (a gap or a duplicate in the sequence numbers is a failure too); otherwise it gives the
  event the next sequence number and its creation time, computes its hash with the
  source's \<^verbatim>\<open>compute_hash\<close>, and returns the sequence number and the hash.
  \<^verbatim>\<open>VerifyChain(from, to)\<close> checks every event of the range with the source's
  \<^verbatim>\<open>verify_chain\<close> against the event stored before it and returns the first sequence
  number that fails, or \<open>None\<close> for success.
\<close>

datatype ledger_error = ConflictError | TamperDetected

definition chain_tip :: "AuditEvent list \<Rightarrow> string option" where
  "chain_tip ledger = (if ledger = [] then None else event_hash (last ledger))"

definition event_ok :: "AuditEvent list \<Rightarrow> nat \<Rightarrow> bool" where
  "event_ok ledger n =
     (sequence_number (ledger ! (n - 1)) = Some (int n) \<and>
      verify_chain (ledger ! (n - 1)) (if n = 1 then None else Some (ledger ! (n - 2))))"

text \<open>
  Modelled from the spec: \<^verbatim>\<open>VerifyChain(from, to)\<close>, absent from the source.  Event \<open>n\<close> is
  the one stored at position \<open>n - 1\<close>; \<open>event_ok\<close> is its check.
\<close>

definition VerifyChain :: "AuditEvent list \<Rightarrow> nat \<Rightarrow> nat \<Rightarrow> nat option" where
  "VerifyChain ledger from to =
     find (\<lambda>n. \<not> event_ok ledger n) [max 1 from..<Suc (min to (length ledger))]"

text \<open>Modelled from the spec: \<^verbatim>\<open>Append(event) -> (sequence, hash)\<close>, absent from the source.\<close>

definition Append ::
  "AuditEvent list \<Rightarrow> datetime \<Rightarrow> AuditEvent \<Rightarrow> ledger_error + AuditEvent list \<times> int \<times> string" where
  "Append ledger now ev =
     (if previous_hash ev \<noteq> chain_tip ledger then Inl ConflictError
      else if VerifyChain ledger 1 (length ledger) \<noteq> None then Inl TamperDetected
      else
        (let e = ev\<lparr>sequence_number := Some (int (length ledger) + 1),
                      created_at := Some (case created_at ev of None \<Rightarrow> now | Some d \<Rightarrow> d)\<rparr>;
             h = compute_hash e None
         in Inr (ledger @ [e\<lparr>event_hash := Some h\<rparr>], int (length ledger) + 1, h)))"

text \<open>The ledgers that \<^verbatim>\<open>Append\<close> builds from the empty one.\<close>

inductive appended :: "AuditEvent list \<Rightarrow> bool" where
  appended_empty: "appended []"
| appended_step: "appended l \<Longrightarrow> Append l now ev = Inr (l', n, h) \<Longrightarrow> appended l'"

text \<open>
  The invariant of the chain, event \<open>n\<close> being the one stored at position \<open>n - 1\<close>: it has
  sequence number \<open>n\<close>, its stored hash is the one \<^verbatim>\<open>compute_hash\<close> gives, and its previous
  hash is the stored hash of event \<open>n - 1\<close>, or \<open>None\<close> for the first event.
\<close>

definition chain_inv :: "AuditEvent list \<Rightarrow> bool" where
  "chain_inv l =
     (\<forall>n. 1 \<le> n \<and> n \<le> length l \<longrightarrow>
        sequence_number (l ! (n - 1)) = Some (int n) \<and>
        event_hash (l ! (n - 1)) = Some (compute_hash (l ! (n - 1)) None) \<and>
        previous_hash (l ! (n - 1)) = (if n = 1 then None else event_hash (l ! (n - 2))))"

section \<open>Controls\<close>

subsection \<open>Kill switches: \<^verbatim>\<open>db/models/kill_switch.py\<close>\<close>

datatype KillSwitchMode = HARD_STOP | SOFT_STOP | READ_ONLY | DEGRADE

record KillSwitch =
  switch_key :: string
  workflow_id :: "uuid option"
  mode :: KillSwitchMode
  is_active :: bool
  auto_deactivate_at :: "datetime option"

definition is_global :: "KillSwitch \<Rightarrow> bool" where
  "is_global ks = (KillSwitch.workflow_id ks = None)"

definition blocks_writes :: "KillSwitch \<Rightarrow> bool" where
  "blocks_writes ks =
     (mode ks \<in> {KillSwitchMode.HARD_STOP, KillSwitchMode.SOFT_STOP, KillSwitchMode.READ_ONLY})"

definition should_auto_deactivate :: "KillSwitch \<Rightarrow> datetime \<Rightarrow> bool" where
  "should_auto_deactivate ks now =
     (if \<not> KillSwitch.is_active ks \<or> auto_deactivate_at ks = None then False
      else dt_le (the (auto_deactivate_at ks)) now)"

subsection \<open>Control policies: \<^verbatim>\<open>db/models/control_policy.py\<close>\<close>

datatype PolicyAction = ALLOW | DENY | REQUIRE_APPROVAL | DEGRADE

text \<open>
  The columns of the class that the modelled functions read; the other columns
  (\<^verbatim>\<open>workflow_id\<close>, the approval columns, the timestamps) are left out.  The two condition
  columns are JSONB and nullable: any JSON value, \<open>JNull\<close> for \<^verbatim>\<open>None\<close>.  The keys of a dict
  are distinct.
\<close>

record ControlPolicy =
  id' :: uuid
  policy_key :: string
  name :: string
  description :: "string option"
  policy_action :: PolicyAction
  conditions :: json
  auto_deny_conditions :: json
  priority :: int
  is_active :: bool

definition requires_approval :: "ControlPolicy \<Rightarrow> bool" where
  "requires_approval p = (policy_action p = REQUIRE_APPROVAL)"

definition is_blocking :: "ControlPolicy \<Rightarrow> bool" where
  "is_blocking p = (policy_action p \<in> {PolicyAction.DENY, REQUIRE_APPROVAL})"

text \<open>The exceptions that the modelled code raises and does not catch.\<close>

datatype py_error = AttributeError | ImportError

text \<open>
  \<^verbatim>\<open>evaluate_conditions\<close>.  The two loops compare \<^verbatim>\<open>context.get(key)\<close> with the expected
  value; \<^verbatim>\<open>.items()\<close> raises \<^verbatim>\<open>AttributeError\<close> on a truthy value that is not a dict.
\<close>

definition auto_deny_triggered :: "(string \<times> json) list \<Rightarrow> (string \<times> json) list \<Rightarrow> bool" where
  "auto_deny_triggered ad ctx = list_ex (\<lambda>(key, expected_value). py_eq (dict_get ctx key) expected_value) ad"

definition conditions_hold :: "(string \<times> json) list \<Rightarrow> (string \<times> json) list \<Rightarrow> bool" where
  "conditions_hold cs ctx = list_all (\<lambda>(key, expected_value). py_eq (dict_get ctx key) expected_value) cs"

definition standard_conditions :: "ControlPolicy \<Rightarrow> (string \<times> json) list \<Rightarrow> py_error + bool" where
  "standard_conditions p ctx =
     (case conditions p of
        JObj cs \<Rightarrow> Inr (conditions_hold cs ctx)
      | _ \<Rightarrow> Inl AttributeError)"

definition evaluate_conditions :: "ControlPolicy \<Rightarrow> (string \<times> json) list \<Rightarrow> py_error + bool" where
  "evaluate_conditions p ctx =
     (if \<not> truthy (conditions p) then Inr True
      else if truthy (auto_deny_conditions p) then
        (case auto_deny_conditions p of
           JObj ad \<Rightarrow> if auto_deny_triggered ad ctx then Inr True else standard_conditions p ctx
         | _ \<Rightarrow> Inl AttributeError)
      else standard_conditions p ctx)"

subsection \<open>What a handler raises\<close>

text \<open>
  A handler of a router either returns, or raises an \<^verbatim>\<open>HTTPException\<close> with a status code
  and a detail, or lets another exception escape: its class, and the name that could not
  be resolved.
\<close>

datatype handler_error = HTTPException nat string | Unhandled py_error string

fun and_then :: "handler_error + 'a \<Rightarrow> ('a \<Rightarrow> handler_error + 'b) \<Rightarrow> handler_error + 'b" where
  "and_then (Inl e) f = Inl e"
| "and_then (Inr x) f = f x"

subsection \<open>The policy listing: \<^verbatim>\<open>api/control_policies.py\<close>\<close>

text \<open>
  The router imports \<^verbatim>\<open>PolicyOutcome\<close> from the model, which does not define that name:
  as the repository stands the import raises \<^verbatim>\<open>ImportError\<close> and no handler of the module
  can run.  Whether the name can be imported is the parameter \<open>PolicyOutcome_defined\<close>; the
  members of the missing class are the type variable \<open>'o\<close>.

  \<^verbatim>\<open>list_control_policies\<close> builds one query: the rows with the given \<^verbatim>\<open>is_active\<close>; if an
  outcome is given, those with that \<^verbatim>\<open>ControlPolicy.outcome\<close>, an attribute the class does
  not declare, so that building the query raises \<^verbatim>\<open>AttributeError\<close>; if a search text is
  given, those whose name or description matches; \<^verbatim>\<open>ORDER BY priority ASC\<close>, then
  \<^verbatim>\<open>OFFSET skip LIMIT limit\<close>.  The database's \<^verbatim>\<open>ILIKE\<close> operator is the parameter
  \<open>ilike\<close>; a \<^verbatim>\<open>NULL\<close> description matches nothing.  How the database orders the selected
  rows is the parameter \<open>order_by\<close>: the query promises that the answer holds the selected
  rows in ascending priority and nothing about rows of equal priority
  (\<open>orders_by_priority\<close>).
\<close>

definition matching_policies ::
  "(string \<Rightarrow> string \<Rightarrow> bool) \<Rightarrow> ControlPolicy list \<Rightarrow> string option \<Rightarrow> bool \<Rightarrow> ControlPolicy list" where
  "matching_policies ilike db search active =
     (let q1 = filter (\<lambda>p. ControlPolicy.is_active p = active) db
      in if truthy_str search then
           filter (\<lambda>p. ilike (ControlPolicy.name p) (''%'' @ the search @ ''%'') \<or>
                       (case ControlPolicy.description p of
                          None \<Rightarrow> False
                        | Some d \<Rightarrow> ilike d (''%'' @ the search @ ''%''))) q1
         else q1)"

definition orders_by_priority :: "(ControlPolicy list \<Rightarrow> ControlPolicy list) \<Rightarrow> bool" where
  "orders_by_priority order_by =
     (\<forall>q. mset (order_by q) = mset q \<and> sorted (map priority (order_by q)))"

definition list_control_policies ::
  "bool \<Rightarrow> (string \<Rightarrow> string \<Rightarrow> bool) \<Rightarrow> (ControlPolicy list \<Rightarrow> ControlPolicy list) \<Rightarrow>
   ControlPolicy list \<Rightarrow> nat \<Rightarrow> nat \<Rightarrow> 'o option \<Rightarrow> string option \<Rightarrow> bool \<Rightarrow>
   handler_error + ControlPolicy list" where
  "list_control_policies PolicyOutcome_defined ilike order_by db skip limit outcome_filter search
     active =
     (if \<not> PolicyOutcome_defined then Inl (Unhandled ImportError ''PolicyOutcome'')
      else
        (case outcome_filter of
           Some oc \<Rightarrow> Inl (Unhandled AttributeError ''outcome'')
         | None \<Rightarrow>
             Inr (take limit (drop skip (order_by (matching_policies ilike db search active))))))"

subsection \<open>Enforcement gates: \<^verbatim>\<open>db/models/enforcement_gate.py\<close>\<close>

datatype GateType =
    PRE_EXECUTION | POST_EXECUTION | CAPABILITY_REQUEST | PRODUCTION_CHANGE | DATA_ACCESS
  | MODEL_DEPLOYMENT | BREAK_GLASS_ENTRY

datatype GateOutcome = ALLOW | BLOCK | WARNING | HARD_STOP | DEGRADE

record EnforcementGate =
  gate_key :: string
  gate_type :: GateType
  workflow_id :: "uuid option"
  capability_id :: "uuid option"
  control_policy_ids :: "uuid list"
  enforcement_mode :: string
  require_all_pass :: bool
  check_kill_switches :: bool
  is_active :: bool

text \<open>
  One entry of \<^verbatim>\<open>controls_evaluated\<close>: the policy and its result
  (\<^verbatim>\<open>"PASS" | "FAIL" | "ERROR"\<close>); the free-text reason and the evidence reference are left
  out.  An entry of \<^verbatim>\<open>kill_switches_checked\<close> is the key of the switch.
\<close>

datatype PolicyResult = PASS | FAIL | ERROR

record ControlEvaluation =
  policy_id :: uuid
  policy_name :: string
  result :: PolicyResult

record GateExecution =
  gate_key :: string
  outcome :: GateOutcome
  controls_evaluated :: "ControlEvaluation list"
  kill_switches_checked :: "string list"

subsection \<open>Gate evaluation\<close>

text \<open>
  Modelled from the spec: the outcome of a policy, one of allow, deny and review
  (section 3).  The source's class has \<^verbatim>\<open>policy_action\<close> instead, with four members; which
  outcome a policy has is the parameter \<open>outcome_of\<close> of the evaluation.
\<close>

datatype PolicyOutcome = ALLOW | DENY | REVIEW

text \<open>
  Modelled from the spec: \<^verbatim>\<open>Evaluate\<close> of section 4.2, which the source does not have
  (it has the gate, kill-switch and policy models and \<^verbatim>\<open>evaluate_conditions\<close>).
  The snapshot of the policy source is given as the lists of all kill switches and of all
  policies; \<open>is_write\<close> says whether the requested operation is a write.
  \<^enum> If the gate's \<^verbatim>\<open>check_kill_switches\<close> flag is set, the active kill switches in scope
    (global, or of the gate's workflow) are fetched.  A hard-stop switch gives
    \<^verbatim>\<open>HARD_STOP\<close> at once, and no policy is evaluated.  Otherwise a soft-stop or read-only
    switch (one that \<^verbatim>\<open>blocks_writes\<close>, in the source's words) gives \<^verbatim>\<open>BLOCK\<close> when the
    operation is a write.  With a degrade switch the evaluation goes on and the outcome is
    marked \<^verbatim>\<open>DEGRADE\<close>.
  \<^enum> The gate's active policies are taken in ascending priority, ties broken by the policy
    identifier, and each one's conditions are evaluated against the context with the
    source's \<^verbatim>\<open>evaluate_conditions\<close>; every result is recorded.  An applicable policy
    contributes its outcome (allow, deny as \<^verbatim>\<open>BLOCK\<close>, review as \<^verbatim>\<open>WARNING\<close>); an error
    contributes \<^verbatim>\<open>BLOCK\<close> under blocking enforcement and \<^verbatim>\<open>WARNING\<close> under monitoring.
  \<^enum> With \<^verbatim>\<open>require_all_pass\<close> the most restrictive contribution is the aggregate;
    without it the most permissive one is.  The aggregate is the outcome unless a kill
    switch produced \<^verbatim>\<open>HARD_STOP\<close> or \<^verbatim>\<open>DEGRADE\<close>.
  \<^enum> The execution record is written, with the outcome, the kill switches checked and the
    results of the policies.
\<close>

definition in_scope :: "KillSwitch \<Rightarrow> EnforcementGate \<Rightarrow> bool" where
  "in_scope ks g = (is_global ks \<or> KillSwitch.workflow_id ks = EnforcementGate.workflow_id g)"

definition active_switches :: "KillSwitch list \<Rightarrow> EnforcementGate \<Rightarrow> KillSwitch list" where
  "active_switches switches g = filter (\<lambda>ks. KillSwitch.is_active ks \<and> in_scope ks g) switches"

text \<open>The kill switches that step 1 fetches: none when the gate's flag is off.\<close>

definition fetched_switches :: "EnforcementGate \<Rightarrow> KillSwitch list \<Rightarrow> KillSwitch list" where
  "fetched_switches g switches =
     (if check_kill_switches g then active_switches switches g else [])"

definition policy_order :: "ControlPolicy \<Rightarrow> int \<times> uuid" where
  "policy_order p = (priority p, ControlPolicy.id' p)"

definition gate_policies :: "EnforcementGate \<Rightarrow> ControlPolicy list \<Rightarrow> ControlPolicy list" where
  "gate_policies g policies =
     sort_key policy_order
       (filter (\<lambda>p. ControlPolicy.is_active p \<and> ControlPolicy.id' p \<in> set (control_policy_ids g))
          policies)"

text \<open>What a policy contributes to the aggregate, if anything, and the result recorded for it.\<close>

definition policy_verdict ::
  "(ControlPolicy \<Rightarrow> PolicyOutcome) \<Rightarrow> EnforcementGate \<Rightarrow> (string \<times> json) list \<Rightarrow> ControlPolicy \<Rightarrow>
   GateOutcome option" where
  "policy_verdict outcome_of g ctx p =
     (case evaluate_conditions p ctx of
        Inl err \<Rightarrow> Some (if enforcement_mode g = ''MONITORING'' then WARNING else BLOCK)
      | Inr applies \<Rightarrow>
          if \<not> applies then None
          else
            (case outcome_of p of
               PolicyOutcome.ALLOW \<Rightarrow> Some GateOutcome.ALLOW
             | PolicyOutcome.DENY \<Rightarrow> Some BLOCK
             | REVIEW \<Rightarrow> Some WARNING))"

definition evaluate_policy ::
  "(ControlPolicy \<Rightarrow> PolicyOutcome) \<Rightarrow> EnforcementGate \<Rightarrow> (string \<times> json) list \<Rightarrow> ControlPolicy \<Rightarrow>
   ControlEvaluation" where
  "evaluate_policy outcome_of g ctx p =
     \<lparr>policy_id = ControlPolicy.id' p, policy_name = ControlPolicy.name p,
      result =
        (case evaluate_conditions p ctx of
           Inl err \<Rightarrow> ERROR
         | Inr applies \<Rightarrow>
             if applies \<and> outcome_of p \<noteq> PolicyOutcome.ALLOW then FAIL else PASS)\<rparr>"

definition aggregate :: "bool \<Rightarrow> GateOutcome option list \<Rightarrow> GateOutcome" where
  "aggregate all_pass vs =
     (if all_pass then
        (if Some BLOCK \<in> set vs then BLOCK
         else if Some WARNING \<in> set vs then WARNING
         else GateOutcome.ALLOW)
      else
        (if Some GateOutcome.ALLOW \<in> set vs then GateOutcome.ALLOW
         else if Some WARNING \<in> set vs then WARNING
         else if Some BLOCK \<in> set vs then BLOCK
         else GateOutcome.ALLOW))"

definition execution ::
  "EnforcementGate \<Rightarrow> string list \<Rightarrow> GateOutcome \<Rightarrow> ControlEvaluation list \<Rightarrow> GateExecution" where
  "execution g checked oc evals =
     \<lparr>gate_key = EnforcementGate.gate_key g, outcome = oc, controls_evaluated = evals,
      kill_switches_checked = checked\<rparr>"

text \<open>
  Modelled from the spec: \<^verbatim>\<open>Evaluate(gateKey, actor, context) -> GateOutcome\<close>, absent from
  the source; the steps are those listed above.
\<close>

definition Evaluate ::
  "(ControlPolicy \<Rightarrow> PolicyOutcome) \<Rightarrow> EnforcementGate \<Rightarrow> KillSwitch list \<Rightarrow> ControlPolicy list \<Rightarrow>
   (string \<times> json) list \<Rightarrow> bool \<Rightarrow> GateExecution" where
  "Evaluate outcome_of g switches policies ctx is_write =
     (let active = fetched_switches g switches;
          modes = map mode active;
          checked = map switch_key active
      in
        if KillSwitchMode.HARD_STOP \<in> set modes then
          execution g checked GateOutcome.HARD_STOP []
        else if list_ex blocks_writes active \<and> is_write then
          execution g checked BLOCK []
        else
          (let evals = map (evaluate_policy outcome_of g ctx) (gate_policies g policies);
               agg = aggregate (require_all_pass g)
                       (map (policy_verdict outcome_of g ctx) (gate_policies g policies))
           in execution g checked
                (if KillSwitchMode.DEGRADE \<in> set modes then GateOutcome.DEGRADE else agg) evals))"

section \<open>Change requests\<close>

subsection \<open>The model: \<^verbatim>\<open>db/models/change_request.py\<close>\<close>

datatype ChangeRiskLevel = LOW | MEDIUM | HIGH | CRITICAL

datatype ChangeStatus =
    DRAFT | SUBMITTED | UNDER_REVIEW | PENDING_APPROVAL | APPROVED | SCHEDULED
  | IN_PROGRESS | COMPLETED | FAILED | ROLLED_BACK | REJECTED | CANCELLED

text \<open>\<^verbatim>\<open>ChangeStatus.NAME\<close>: the member of that name, if the enum has one.\<close>

definition ChangeStatus_member :: "string \<Rightarrow> ChangeStatus option" where
  "ChangeStatus_member =
     map_of [(''DRAFT'', DRAFT), (''SUBMITTED'', SUBMITTED), (''UNDER_REVIEW'', UNDER_REVIEW),
       (''PENDING_APPROVAL'', PENDING_APPROVAL), (''APPROVED'', APPROVED),
       (''SCHEDULED'', SCHEDULED), (''IN_PROGRESS'', IN_PROGRESS), (''COMPLETED'', COMPLETED),
       (''FAILED'', FAILED), (''ROLLED_BACK'', ROLLED_BACK), (''REJECTED'', REJECTED),
       (''CANCELLED'', CANCELLED)]"

text \<open>
  The columns of the class that its methods and the router read or write, and those of the
  review and approval steps; the other columns (the key and title, the linked resources, the
  requester, the change details, the verification and rollback records, the timestamps) are
  left out.  The class declares no attribute named
  \<^verbatim>\<open>justification\<close>, \<^verbatim>\<open>rollback_plan\<close>, \<^verbatim>\<open>submitted_at\<close>, \<^verbatim>\<open>approved_by\<close>,
  \<^verbatim>\<open>implemented_at\<close>, \<^verbatim>\<open>implemented_by\<close> or \<^verbatim>\<open>implementation_notes\<close>.
\<close>

record ChangeRequest =
  id' :: uuid
  risk_level :: "ChangeRiskLevel option"
  description :: "string option"
  rationale :: "string option"
  status :: ChangeStatus
  reviewer_id :: "uuid option"
  reviewed_at :: "datetime option"
  approver_id :: "uuid option"
  approved_at :: "datetime option"
  approval_notes :: json
  rejection_reason :: json
  rejected_by :: json
  scheduled_start :: "datetime option"
  scheduled_end :: "datetime option"
  rollback_procedure :: json

definition is_within_execution_window :: "ChangeRequest \<Rightarrow> datetime \<Rightarrow> bool" where
  "is_within_execution_window cr now =
     (if scheduled_start cr = None \<or> scheduled_end cr = None then False
      else dt_le (the (scheduled_start cr)) now \<and> dt_le now (the (scheduled_end cr)))"

definition requires_multi_stage_approval :: "ChangeRequest \<Rightarrow> bool" where
  "requires_multi_stage_approval cr =
     (risk_level cr \<in> {Some MEDIUM, Some HIGH, Some CRITICAL})"

definition can_auto_approve :: "ChangeRequest \<Rightarrow> bool" where
  "can_auto_approve cr = (risk_level cr = Some LOW)"

subsection \<open>The router: \<^verbatim>\<open>api/change_requests.py\<close>\<close>

text \<open>
  The router imports \<^verbatim>\<open>ChangeRequestStatus\<close> and \<^verbatim>\<open>ChangeRequestRisk\<close> from the model, which
  defines neither name: as the repository stands the import raises \<^verbatim>\<open>ImportError\<close> and no
  handler of the module can run.  What the name \<^verbatim>\<open>ChangeRequestStatus\<close> is bound to is the
  parameter \<open>ChangeRequestStatus\<close> of every handler: \<open>None\<close> when the import fails, and
  otherwise a class given by the members it has.  The status column holds members of
  \<^verbatim>\<open>ChangeStatus\<close>, so that is what a member is here; asking for a member the class does not
  have raises \<^verbatim>\<open>AttributeError\<close>.
\<close>

type_synonym enum_class = "string \<Rightarrow> ChangeStatus option"

definition imported :: "enum_class option \<Rightarrow> handler_error + enum_class" where
  "imported ChangeRequestStatus =
     (case ChangeRequestStatus of
        None \<Rightarrow> Inl (Unhandled ImportError ''ChangeRequestStatus'')
      | Some cls \<Rightarrow> Inr cls)"

definition enum_member :: "enum_class \<Rightarrow> string \<Rightarrow> handler_error + ChangeStatus" where
  "enum_member cls member_name =
     (case cls member_name of
        None \<Rightarrow> Inl (Unhandled AttributeError member_name)
      | Some m \<Rightarrow> Inr m)"

text \<open>
  Reading an attribute that the class does not declare, on an object loaded from the
  database, raises \<^verbatim>\<open>AttributeError\<close>.  Assigning to such a name makes a plain attribute of
  the object, which the commit does not store: a handler returns the request together with
  the attributes it has set in this way.
\<close>

definition undeclared :: "string \<Rightarrow> handler_error + json" where
  "undeclared attr_name = Inl (Unhandled AttributeError attr_name)"

datatype attribute_value = JsonValue json | DatetimeValue datetime

text \<open>
  The table of change requests is the list of its rows.  Every handler looks the request
  up by its id (\<^verbatim>\<open>.first()\<close>), raises or changes the row and commits.  A handler returns the
  table as it leaves it, and the exception or the changed request; when it raises, nothing
  has been committed and the table is the one it was given.
\<close>

definition not_found :: "uuid \<Rightarrow> handler_error" where
  "not_found request_id = HTTPException 404 (''Change request '' @ request_id @ '' not found'')"

definition first_with_id :: "uuid \<Rightarrow> ChangeRequest list \<Rightarrow> handler_error + ChangeRequest" where
  "first_with_id request_id db =
     (case find (\<lambda>r. ChangeRequest.id' r = request_id) db of
        None \<Rightarrow> Inl (not_found request_id)
      | Some change_request \<Rightarrow> Inr change_request)"

fun commit :: "ChangeRequest \<Rightarrow> ChangeRequest list \<Rightarrow> ChangeRequest list" where
  "commit cr [] = []"
| "commit cr (r # rs) =
     (if ChangeRequest.id' r = ChangeRequest.id' cr then cr # rs else r # commit cr rs)"

definition respond ::
  "ChangeRequest list \<Rightarrow> handler_error + ChangeRequest \<times> (string \<times> attribute_value) list \<Rightarrow>
   ChangeRequest list \<times> (handler_error + ChangeRequest \<times> (string \<times> attribute_value) list)" where
  "respond db r =
     (case r of
        Inl e \<Rightarrow> (db, Inl e)
      | Inr (cr, attributes) \<Rightarrow> (commit cr db, Inr (cr, attributes)))"

text \<open>
  \<^verbatim>\<open>all([change_request.description, change_request.justification,
  change_request.risk_level, change_request.rollback_plan])\<close>: the list is built first, one
  attribute after the other.
\<close>

definition required_fields_present :: "ChangeRequest \<Rightarrow> handler_error + bool" where
  "required_fields_present change_request =
     and_then (Inr (ChangeRequest.description change_request)) (\<lambda>description.
     and_then (undeclared ''justification'') (\<lambda>justification.
     and_then (Inr (risk_level change_request)) (\<lambda>risk.
     and_then (undeclared ''rollback_plan'') (\<lambda>rollback_plan.
       Inr (truthy_str description \<and> truthy justification \<and> risk \<noteq> None \<and>
            truthy rollback_plan)))))"

definition submit_for_approval ::
  "enum_class option \<Rightarrow> ChangeRequest list \<Rightarrow> datetime \<Rightarrow> uuid \<Rightarrow>
   ChangeRequest list \<times> (handler_error + ChangeRequest \<times> (string \<times> attribute_value) list)" where
  "submit_for_approval ChangeRequestStatus db now request_id =
     respond db
       (and_then (imported ChangeRequestStatus) (\<lambda>cls.
        and_then (first_with_id request_id db) (\<lambda>change_request.
        and_then (enum_member cls ''DRAFT'') (\<lambda>draft.
          if status change_request \<noteq> draft then
            Inl (HTTPException 400 ''Can only submit DRAFT requests'')
          else
            and_then (required_fields_present change_request) (\<lambda>present.
              if \<not> present then
                Inl (HTTPException 400 ''Missing required fields for submission'')
              else
                and_then (enum_member cls ''PENDING_APPROVAL'') (\<lambda>pending.
                  Inr (change_request\<lparr>status := pending\<rparr>,
                       [(''submitted_at'', DatetimeValue now)])))))))"

definition approve_change_request ::
  "enum_class option \<Rightarrow> ChangeRequest list \<Rightarrow> datetime \<Rightarrow> uuid \<Rightarrow> (string \<times> json) list \<Rightarrow>
   ChangeRequest list \<times> (handler_error + ChangeRequest \<times> (string \<times> attribute_value) list)" where
  "approve_change_request ChangeRequestStatus db now request_id approval_data =
     respond db
       (and_then (imported ChangeRequestStatus) (\<lambda>cls.
        and_then (first_with_id request_id db) (\<lambda>change_request.
        and_then (enum_member cls ''PENDING_APPROVAL'') (\<lambda>pending.
          if status change_request \<noteq> pending then
            Inl (HTTPException 400 ''Can only approve PENDING_APPROVAL requests'')
          else
            and_then (enum_member cls ''APPROVED'') (\<lambda>approved.
              Inr (change_request\<lparr>status := approved, approved_at := Some now,
                     approval_notes := dict_get approval_data ''approval_notes''\<rparr>,
                   [(''approved_by'', JsonValue (dict_get approval_data ''approver_id''))]))))))"

definition reject_change_request ::
  "enum_class option \<Rightarrow> ChangeRequest list \<Rightarrow> uuid \<Rightarrow> (string \<times> json) list \<Rightarrow>
   ChangeRequest list \<times> (handler_error + ChangeRequest \<times> (string \<times> attribute_value) list)" where
  "reject_change_request ChangeRequestStatus db request_id rejection_data =
     respond db
       (and_then (imported ChangeRequestStatus) (\<lambda>cls.
        and_then (first_with_id request_id db) (\<lambda>change_request.
        and_then (enum_member cls ''PENDING_APPROVAL'') (\<lambda>pending.
          if status change_request \<noteq> pending then
            Inl (HTTPException 400 ''Can only reject PENDING_APPROVAL requests'')
          else
            and_then (enum_member cls ''REJECTED'') (\<lambda>rejected.
              Inr (change_request\<lparr>status := rejected,
                     rejection_reason := dict_get rejection_data ''rejection_reason'',
                     rejected_by := dict_get rejection_data ''rejected_by''\<rparr>,
                   []))))))"

definition mark_implemented ::
  "enum_class option \<Rightarrow> ChangeRequest list \<Rightarrow> datetime \<Rightarrow> uuid \<Rightarrow> (string \<times> json) list \<Rightarrow>
   ChangeRequest list \<times> (handler_error + ChangeRequest \<times> (string \<times> attribute_value) list)" where
  "mark_implemented ChangeRequestStatus db now request_id implementation_data =
     respond db
       (and_then (imported ChangeRequestStatus) (\<lambda>cls.
        and_then (first_with_id request_id db) (\<lambda>change_request.
        and_then (enum_member cls ''APPROVED'') (\<lambda>approved.
          if status change_request \<noteq> approved then
            Inl (HTTPException 400 ''Can only implement APPROVED requests'')
          else
            and_then (enum_member cls ''IMPLEMENTED'') (\<lambda>implemented.
              Inr (change_request\<lparr>status := implemented\<rparr>,
                   [(''implemented_at'', DatetimeValue now),
                    (''implemented_by'',
                       JsonValue (dict_get implementation_data ''implemented_by'')),
                    (''implementation_notes'',
                       JsonValue (dict_get implementation_data ''implementation_notes''))]))))))"

section \<open>Concrete inputs\<close>

definition dt_2025_01_01 :: datetime where
  "dt_2025_01_01 = \<lparr>year = 2025, month = 1, day = 1, hour = 0, minute = 0, second = 0,
     microsecond = 0\<rparr>"

definition dt_2025_01_02 :: datetime where
  "dt_2025_01_02 = \<lparr>year = 2025, month = 1, day = 2, hour = 0, minute = 0, second = 0,
     microsecond = 0\<rparr>"

definition dt_2025_01_03 :: datetime where
  "dt_2025_01_03 = \<lparr>year = 2025, month = 1, day = 3, hour = 0, minute = 0, second = 0,
     microsecond = 0\<rparr>"

definition cr_draft :: ChangeRequest where
  "cr_draft = \<lparr>id' = ''cr-1'', risk_level = Some LOW,
     description = Some ''Rotate the signing key'', rationale = Some ''Key is a year old'',
     status = DRAFT, reviewer_id = None, reviewed_at = None, approver_id = None,
     approved_at = None, approval_notes = JNull, rejection_reason = JNull, rejected_by = JNull,
     scheduled_start = None, scheduled_end = None,
     rollback_procedure = JObj [(''steps'', JList [JStr ''restore the old key''])]\<rparr>"

definition ev_a :: AuditEvent where
  "ev_a = create_event ''KILL_SWITCH_ACTIVATED'' ''Activated the production freeze''
     ''123e4567-e89b-12d3-a456-426614174000'' ''USER'' ''SUCCESS''
     (JObj [(''ip_address'', JStr ''10.0.0.1'')]) (Some ''KILL_SWITCH'') None None
     (Some ''ops@example.com'') JNull None"

definition ev_a_numbered :: AuditEvent where
  "ev_a_numbered = ev_a\<lparr>sequence_number := Some 1, created_at := Some dt_2025_01_01\<rparr>"

definition ev_a_stored :: AuditEvent where
  "ev_a_stored = ev_a_numbered\<lparr>event_hash := Some (compute_hash ev_a_numbered None)\<rparr>"

definition ev_b :: AuditEvent where
  "ev_b = create_event ''GATE_BLOCKED'' ''Blocked a deployment''
     ''123e4567-e89b-12d3-a456-426614174000'' ''USER'' ''BLOCKED''
     (JObj [(''gate_id'', JStr ''deploy.pre_execution'')]) (Some ''GATE'') None None
     None JNull (Some (compute_hash ev_a_numbered None))"

definition ev_b_numbered :: AuditEvent where
  "ev_b_numbered = ev_b\<lparr>sequence_number := Some 2, created_at := Some dt_2025_01_02\<rparr>"

definition ev_b_stored :: AuditEvent where
  "ev_b_stored = ev_b_numbered\<lparr>event_hash := Some (compute_hash ev_b_numbered None)\<rparr>"

definition ledger2 :: "AuditEvent list" where
  "ledger2 = [ev_a_stored, ev_b_stored]"

definition ev_a_tampered :: AuditEvent where
  "ev_a_tampered = ev_a_stored\<lparr>context' := JObj [(''ip_address'', JStr ''10.0.0.9'')]\<rparr>"

definition policy_allow_prod :: ControlPolicy where
  "policy_allow_prod = \<lparr>ControlPolicy.id' = ''a1'', policy_key = ''allow-prod'', name = ''Allow production'',
     ControlPolicy.description = None, policy_action = PolicyAction.ALLOW,
     conditions = JObj [(''env'', JStr ''prod'')], auto_deny_conditions = JNull,
     priority = 20, ControlPolicy.is_active = True\<rparr>"

definition policy_deny_after_hours :: ControlPolicy where
  "policy_deny_after_hours = \<lparr>ControlPolicy.id' = ''d1'', policy_key = ''deny-after-hours'',
     name = ''No changes after hours'', ControlPolicy.description = None,
     policy_action = PolicyAction.DENY,
     conditions = JObj [(''env'', JStr ''prod'')],
     auto_deny_conditions = JObj [(''after_hours'', JBool True)],
     priority = 10, ControlPolicy.is_active = True\<rparr>"

definition policy_unconditional :: ControlPolicy where
  "policy_unconditional = \<lparr>ControlPolicy.id' = ''u1'', policy_key = ''log-everything'',
     name = ''Log everything'', ControlPolicy.description = Some ''Applies to every request'',
     policy_action = PolicyAction.ALLOW,
     conditions = JObj [], auto_deny_conditions = JNull, priority = 10, ControlPolicy.is_active = True\<rparr>"

definition ctx_prod_after_hours :: "(string \<times> json) list" where
  "ctx_prod_after_hours = [(''env'', JStr ''prod''), (''after_hours'', JBool True)]"

definition ctx_dev_after_hours :: "(string \<times> json) list" where
  "ctx_dev_after_hours = [(''env'', JStr ''dev''), (''after_hours'', JBool True)]"

text \<open>
  The outcome of a policy read off its \<^verbatim>\<open>policy_action\<close>: allow and deny as they are,
  the two other actions as review.
\<close>

definition action_outcome :: "ControlPolicy \<Rightarrow> PolicyOutcome" where
  "action_outcome p =
     (case policy_action p of
        PolicyAction.ALLOW \<Rightarrow> PolicyOutcome.ALLOW
      | PolicyAction.DENY \<Rightarrow> PolicyOutcome.DENY
      | REQUIRE_APPROVAL \<Rightarrow> REVIEW
      | PolicyAction.DEGRADE \<Rightarrow> REVIEW)"

definition gate_deploy :: EnforcementGate where
  "gate_deploy = \<lparr>EnforcementGate.gate_key = ''deploy.pre_execution'',
     gate_type = PRODUCTION_CHANGE, EnforcementGate.workflow_id = Some ''wf-1'',
     capability_id = None, control_policy_ids = [''a1'', ''d1''],
     enforcement_mode = ''BLOCKING'', require_all_pass = True, check_kill_switches = True,
     EnforcementGate.is_active = True\<rparr>"

definition switch_freeze :: KillSwitch where
  "switch_freeze = \<lparr>switch_key = ''prod-freeze'', KillSwitch.workflow_id = None,
     mode = KillSwitchMode.HARD_STOP, KillSwitch.is_active = True,
     auto_deactivate_at = None\<rparr>"

definition switch_degrade :: KillSwitch where
  "switch_degrade = \<lparr>switch_key = ''prod-degrade'', KillSwitch.workflow_id = None,
     mode = KillSwitchMode.DEGRADE, KillSwitch.is_active = True,
     auto_deactivate_at = None\<rparr>"

definition policy_b :: ControlPolicy where
  "policy_b = policy_unconditional\<lparr>ControlPolicy.id' := ''b''\<rparr>"

definition policy_a :: ControlPolicy where
  "policy_a = policy_unconditional\<lparr>ControlPolicy.id' := ''a''\<rparr>"

definition never_like :: "string \<Rightarrow> string \<Rightarrow> bool" where
  "never_like s pattern = False"

definition gate_ties :: EnforcementGate where
  "gate_ties = gate_deploy\<lparr>control_policy_ids := [''b'', ''a'']\<rparr>"

definition cr_medium_pending :: ChangeRequest where
  "cr_medium_pending = cr_draft\<lparr>ChangeRequest.id' := ''cr-2'', risk_level := Some MEDIUM,
     status := PENDING_APPROVAL\<rparr>"

definition approval_data :: "(string \<times> json) list" where
  "approval_data = [(''approver_id'', JStr ''cto''), (''approval_notes'', JStr ''ok'')]"

definition cr_medium_approved :: ChangeRequest where
  "cr_medium_approved = cr_medium_pending\<lparr>status := APPROVED,
     approved_at := Some dt_2025_01_02, approval_notes := JStr ''ok''\<rparr>"

definition cr_approved :: ChangeRequest where
  "cr_approved = cr_draft\<lparr>ChangeRequest.id' := ''cr-4'', status := APPROVED,
     scheduled_start := Some dt_2025_01_01, scheduled_end := Some dt_2025_01_02\<rparr>"

definition implementation_data :: "(string \<times> json) list" where
  "implementation_data =
     [(''implemented_by'', JStr ''ops''), (''implementation_notes'', JStr ''done'')]"

section \<open>The event hash\<close>

lemma length_hex32: "length (hex32 w) = 8"
  by (simp add: hex32_def)

lemma hex_digit_is_hex: "is_hex_char (hex_digit n)"
proof -
  have "unat (n AND 15) \<le> unat (15 :: w32)"
    by (rule word_and_le1 [THEN word_le_nat_alt [THEN iffD1]])
  then have "unat (n AND 15) < length ''0123456789abcdef''" by simp
  then show ?thesis unfolding hex_digit_def is_hex_char_def by (rule nth_mem)
qed

lemma hex32_is_hex: "is_hex_string (hex32 w)"
  by (simp add: hex32_def is_hex_string_def list_all_iff hex_digit_is_hex)

lemma is_hex_string_append: "is_hex_string (xs @ ys) = (is_hex_string xs \<and> is_hex_string ys)"
  by (simp add: is_hex_string_def)

lemma length_hex_state: "length (hex_state s) = 64"
  by (simp add: hex_state_def length_hex32 split: prod.splits)

lemma hex_state_is_hex: "is_hex_string (hex_state s)"
  by (simp add: hex_state_def is_hex_string_append hex32_is_hex split: prod.splits)

lemma length_sha256_hexdigest: "length (sha256_hexdigest s) = 64"
  by (simp add: sha256_hexdigest_def length_hex_state)

lemma sha256_hexdigest_is_hex: "is_hex_string (sha256_hexdigest s)"
  by (simp add: sha256_hexdigest_def hex_state_is_hex)

text \<open>The model gives the digest that FIPS 180-4 lists for the message \<^verbatim>\<open>abc\<close>.\<close>

lemma sha256_hexdigest_abc:
  "sha256_hexdigest ''abc'' = ''ba7816bf8f01cfea414140de5dae2223b00361a396177a9cb410ff61f20015ad''"
  by code_simp

lemma hash_data_same_fields:
  assumes "sequence_number e1 = sequence_number e2" "event_type e1 = event_type e2"
    "action e1 = action e2" "actor_id e1 = actor_id e2" "actor_type e1 = actor_type e2"
    "resource_type e1 = resource_type e2" "resource_id e1 = resource_id e2"
    "AuditEvent.outcome e1 = AuditEvent.outcome e2" "context' e1 = context' e2"
    "previous_hash e1 = previous_hash e2" "created_at e1 = created_at e2"
  shows "hash_data e1 prev = hash_data e2 prev"
  unfolding hash_data_def using assms by simp

text \<open>
  C9.  \<^verbatim>\<open>compute_hash\<close> depends on the hashed fields only: two events that agree on the
  sequence number, event type, action, actor id and type, resource type and id, outcome,
  context, previous hash and creation time have the same hash (given the same
  \<^verbatim>\<open>previous_hash\<close> argument), whatever their other fields are.  The hash of every event is
  a string of 64 hexadecimal digits.
\<close>

theorem compute_hash_deterministic_hex64:
  "(sequence_number e1 = sequence_number e2 \<and> event_type e1 = event_type e2 \<and>
    action e1 = action e2 \<and> actor_id e1 = actor_id e2 \<and> actor_type e1 = actor_type e2 \<and>
    resource_type e1 = resource_type e2 \<and> resource_id e1 = resource_id e2 \<and>
    AuditEvent.outcome e1 = AuditEvent.outcome e2 \<and> context' e1 = context' e2 \<and>
    previous_hash e1 = previous_hash e2 \<and> created_at e1 = created_at e2
    \<longrightarrow> compute_hash e1 prev = compute_hash e2 prev) \<and>
   length (compute_hash e prev) = 64 \<and> is_hex_string (compute_hash e prev)"
proof (intro conjI impI)
  assume "sequence_number e1 = sequence_number e2 \<and> event_type e1 = event_type e2 \<and>
    action e1 = action e2 \<and> actor_id e1 = actor_id e2 \<and> actor_type e1 = actor_type e2 \<and>
    resource_type e1 = resource_type e2 \<and> resource_id e1 = resource_id e2 \<and>
    AuditEvent.outcome e1 = AuditEvent.outcome e2 \<and> context' e1 = context' e2 \<and>
    previous_hash e1 = previous_hash e2 \<and> created_at e1 = created_at e2"
  then have "hash_data e1 prev = hash_data e2 prev"
    by (intro hash_data_same_fields) simp_all
  then show "compute_hash e1 prev = compute_hash e2 prev"
    by (simp add: compute_hash_def)
next
  show "length (compute_hash e prev) = 64"
    by (simp add: compute_hash_def length_sha256_hexdigest)
next
  show "is_hex_string (compute_hash e prev)"
    by (simp add: compute_hash_def sha256_hexdigest_is_hex)
qed


theorem compute_hash_deterministic_hex64_witness:
  "event_hash ev_a_stored \<noteq> event_hash ev_a_numbered \<and>
   compute_hash ev_a_stored None = compute_hash ev_a_numbered None \<and>
   length (compute_hash ev_a_stored None) = 64 \<and>
   is_hex_string (compute_hash ev_a_stored None)"
proof -
  have fields:
    "sequence_number ev_a_stored = sequence_number ev_a_numbered \<and>
     event_type ev_a_stored = event_type ev_a_numbered \<and>
     action ev_a_stored = action ev_a_numbered \<and>
     actor_id ev_a_stored = actor_id ev_a_numbered \<and>
     actor_type ev_a_stored = actor_type ev_a_numbered \<and>
     resource_type ev_a_stored = resource_type ev_a_numbered \<and>
     resource_id ev_a_stored = resource_id ev_a_numbered \<and>
     AuditEvent.outcome ev_a_stored = AuditEvent.outcome ev_a_numbered \<and>
     context' ev_a_stored = context' ev_a_numbered \<and>
     previous_hash ev_a_stored = previous_hash ev_a_numbered \<and>
     created_at ev_a_stored = created_at ev_a_numbered"
    by (simp add: ev_a_stored_def)
  have differ: "event_hash ev_a_stored \<noteq> event_hash ev_a_numbered"
    by (simp add: ev_a_stored_def ev_a_numbered_def ev_a_def create_event_def)
  from compute_hash_deterministic_hex64 [of ev_a_stored ev_a_numbered None ev_a_stored] fields
    differ
  show ?thesis by blast
qed

section \<open>The hash chain\<close>

lemma compute_hash_event_hash_update:
  "compute_hash (e\<lparr>event_hash := h\<rparr>) prev = compute_hash e prev"
  by (simp add: compute_hash_def hash_data_def)

lemma Append_result:
  assumes "Append l now ev = Inr (l', n, h)"
  shows "\<exists>e. l' = l @ [e] \<and> sequence_number e = Some (int (length l) + 1) \<and>
             event_hash e = Some (compute_hash e None) \<and> previous_hash e = chain_tip l"
  using assms
  by (auto simp add: Append_def Let_def compute_hash_event_hash_update split: if_splits)

lemma chain_inv_snoc:
  assumes inv: "chain_inv l"
    and seq: "sequence_number e = Some (int (length l) + 1)"
    and hash: "event_hash e = Some (compute_hash e None)"
    and prev: "previous_hash e = chain_tip l"
  shows "chain_inv (l @ [e])"
  unfolding chain_inv_def
proof (intro allI impI)
  fix n
  assume n: "1 \<le> n \<and> n \<le> length (l @ [e])"
  show "sequence_number ((l @ [e]) ! (n - 1)) = Some (int n) \<and>
        event_hash ((l @ [e]) ! (n - 1)) = Some (compute_hash ((l @ [e]) ! (n - 1)) None) \<and>
        previous_hash ((l @ [e]) ! (n - 1)) =
          (if n = 1 then None else event_hash ((l @ [e]) ! (n - 2)))"
  proof (cases "n \<le> length l")
    case True
    with n have "(l @ [e]) ! (n - 1) = l ! (n - 1)" "(l @ [e]) ! (n - 2) = l ! (n - 2)"
      by (simp_all add: nth_append)
    with inv n True show ?thesis by (simp add: chain_inv_def)
  next
    case False
    with n have nl: "n = Suc (length l)" by simp
    then have here: "(l @ [e]) ! (n - 1) = e" by simp
    show ?thesis
    proof (cases "l = []")
      case True
      with nl here seq hash prev show ?thesis by (simp add: chain_tip_def)
    next
      case False
      then have "(l @ [e]) ! (n - 2) = last l"
        using nl by (simp add: nth_append last_conv_nth)
      with nl here seq hash prev False show ?thesis by (simp add: chain_tip_def)
    qed
  qed
qed

lemma appended_chain_inv: "appended l \<Longrightarrow> chain_inv l"
proof (induction rule: appended.induct)
  case appended_empty
  show ?case by (simp add: chain_inv_def)
next
  case (appended_step l now ev l' n h)
  from Append_result [OF appended_step.hyps(2)] obtain e where
    "l' = l @ [e]" "sequence_number e = Some (int (length l) + 1)"
    "event_hash e = Some (compute_hash e None)" "previous_hash e = chain_tip l"
    by blast
  with appended_step.IH show ?case by (simp add: chain_inv_snoc)
qed

lemma chain_inv_event_ok:
  assumes "chain_inv l" "1 \<le> n" "n \<le> length l"
  shows "event_ok l n"
proof (cases "n = 1")
  case True
  with assms have "sequence_number (l ! (1 - 1)) = Some (int 1)"
    "previous_hash (l ! (1 - 1)) = None"
    unfolding chain_inv_def by (metis (full_types))+
  with True show ?thesis by (simp add: event_ok_def verify_chain_def)
next
  case False
  with assms have "sequence_number (l ! (n - 1)) = Some (int n)"
    "event_hash (l ! (n - 1)) = Some (compute_hash (l ! (n - 1)) None)"
    "previous_hash (l ! (n - 1)) = event_hash (l ! (n - 2))"
    by (simp_all add: chain_inv_def)
  with False show ?thesis by (simp add: event_ok_def verify_chain_def)
qed

text \<open>
  A ledger built by \<^verbatim>\<open>Append\<close> passes re-verification, so appending to it fails only on a
  stale previous hash.
\<close>

lemma appended_VerifyChain: "appended l \<Longrightarrow> VerifyChain l from to = None"
  by (auto simp add: VerifyChain_def find_None_iff dest: appended_chain_inv intro: chain_inv_event_ok)

lemma appended_Append:
  assumes "appended l" "previous_hash ev = chain_tip l"
  shows "\<exists>l' h. Append l now ev = Inr (l', int (length l) + 1, h)"
  using assms by (simp add: Append_def Let_def appended_VerifyChain)

text \<open>
  C1.  On every ledger built by \<^verbatim>\<open>Append\<close>, every event \<open>n > 1\<close> has the stored hash of
  event \<open>n - 1\<close> as its previous hash, its stored hash is the one \<^verbatim>\<open>compute_hash\<close>
  recomputes, and \<^verbatim>\<open>verify_chain\<close> accepts it against its predecessor; event \<open>n\<close> has
  sequence number \<open>n\<close>; the first event has no previous hash.
\<close>

theorem hash_chain_invariant:
  assumes "appended l"
  shows "(\<forall>n. 1 < n \<and> n \<le> length l \<longrightarrow>
            previous_hash (l ! (n - 1)) = event_hash (l ! (n - 2)) \<and>
            event_hash (l ! (n - 1)) = Some (compute_hash (l ! (n - 1)) None) \<and>
            verify_chain (l ! (n - 1)) (Some (l ! (n - 2)))) \<and>
         (\<forall>n. 1 \<le> n \<and> n \<le> length l \<longrightarrow> sequence_number (l ! (n - 1)) = Some (int n)) \<and>
         (l \<noteq> [] \<longrightarrow> previous_hash (l ! 0) = None \<and> verify_chain (l ! 0) None)"
proof (intro conjI allI impI)
  note inv = appended_chain_inv [OF assms]
  {
    fix n assume n: "1 < n \<and> n \<le> length l"
    with inv have f: "sequence_number (l ! (n - 1)) = Some (int n)"
      "event_hash (l ! (n - 1)) = Some (compute_hash (l ! (n - 1)) None)"
      "previous_hash (l ! (n - 1)) = event_hash (l ! (n - 2))"
      by (simp_all add: chain_inv_def)
    from f show "previous_hash (l ! (n - 1)) = event_hash (l ! (n - 2))" by simp
    from f show "event_hash (l ! (n - 1)) = Some (compute_hash (l ! (n - 1)) None)" by simp
    from f n show "verify_chain (l ! (n - 1)) (Some (l ! (n - 2)))"
      by (simp add: verify_chain_def)
  }
  {
    fix n assume "1 \<le> n \<and> n \<le> length l"
    with inv show "sequence_number (l ! (n - 1)) = Some (int n)" by (simp add: chain_inv_def)
  }
  {
    assume "l \<noteq> []"
    then have "1 \<le> (1::nat) \<and> 1 \<le> length l" by (cases l) simp_all
    with inv have f: "sequence_number (l ! (1 - 1)) = Some (int 1)"
      "previous_hash (l ! (1 - 1)) = None"
      unfolding chain_inv_def by (metis (full_types))+
    from f show "previous_hash (l ! 0) = None" by simp
    from f show "verify_chain (l ! 0) None" by (simp add: verify_chain_def)
  }
qed

lemma Append_ev_a: "Append [] dt_2025_01_01 ev_a = Inr ([ev_a_stored], 1, compute_hash ev_a_numbered None)"
  by (simp add: Append_def chain_tip_def VerifyChain_def ev_a_def create_event_def
      ev_a_stored_def ev_a_numbered_def Let_def)

lemma VerifyChain_ev_a: "VerifyChain [ev_a_stored] 1 (Suc 0) = None"
  by (simp add: VerifyChain_def event_ok_def verify_chain_def ev_a_stored_def
      ev_a_numbered_def ev_a_def create_event_def)

lemma Append_ev_b:
  "Append [ev_a_stored] dt_2025_01_02 ev_b = Inr (ledger2, 2, compute_hash ev_b_numbered None)"
  using VerifyChain_ev_a
  by (simp add: Append_def chain_tip_def ev_b_def create_event_def ledger2_def
      ev_b_stored_def ev_b_numbered_def ev_a_stored_def Let_def)

lemma appended_ledger2: "appended ledger2"
  by (rule appended_step [OF appended_step [OF appended_empty Append_ev_a] Append_ev_b])

theorem hash_chain_invariant_witness:
  "appended ledger2 \<and>
   previous_hash (ledger2 ! 1) = event_hash (ledger2 ! 0) \<and>
   event_hash (ledger2 ! 1) = Some (compute_hash (ledger2 ! 1) None) \<and>
   verify_chain (ledger2 ! 1) (Some (ledger2 ! 0)) \<and>
   sequence_number (ledger2 ! 1) = Some 2 \<and>
   previous_hash (ledger2 ! 0) = None"
proof -
  note inv = hash_chain_invariant [OF appended_ledger2]
  have len: "1 < (2::nat) \<and> 2 \<le> length ledger2" "1 \<le> (2::nat) \<and> 2 \<le> length ledger2"
    "ledger2 \<noteq> []"
    by (simp_all add: ledger2_def)
  from inv have "1 < (2::nat) \<and> 2 \<le> length ledger2 \<longrightarrow>
      previous_hash (ledger2 ! (2 - 1)) = event_hash (ledger2 ! (2 - 2)) \<and>
      event_hash (ledger2 ! (2 - 1)) = Some (compute_hash (ledger2 ! (2 - 1)) None) \<and>
      verify_chain (ledger2 ! (2 - 1)) (Some (ledger2 ! (2 - 2)))"
    by blast
  with len(1) have a: "previous_hash (ledger2 ! 1) = event_hash (ledger2 ! 0) \<and>
      event_hash (ledger2 ! 1) = Some (compute_hash (ledger2 ! 1) None) \<and>
      verify_chain (ledger2 ! 1) (Some (ledger2 ! 0))"
    by simp
  from inv have "1 \<le> (2::nat) \<and> 2 \<le> length ledger2 \<longrightarrow>
      sequence_number (ledger2 ! (2 - 1)) = Some (int 2)"
    by blast
  with len(2) have b: "sequence_number (ledger2 ! 1) = Some 2" by simp
  from inv len(3) have c: "previous_hash (ledger2 ! 0) = None" by blast
  from a b c appended_ledger2 show ?thesis by simp
qed

text \<open>
  What \<^verbatim>\<open>verify_chain\<close> checks.  For the first event it looks at the previous hash only;
  for a later event it compares the previous hash with the predecessor's stored hash, if
  it is given one, and the stored hash with the recomputed one.
\<close>

lemma verify_chain_first:
  "sequence_number e = Some 1 \<Longrightarrow> verify_chain e previous_event = (previous_hash e = None)"
  by (simp add: verify_chain_def)

lemma verify_chain_later:
  "sequence_number e \<noteq> Some 1 \<Longrightarrow>
   verify_chain e (Some p) =
     (previous_hash e = event_hash p \<and> event_hash e = Some (compute_hash e None))"
  by (simp add: verify_chain_def)

text \<open>
  C2.  The first event of a chain, with its context altered after it was stored:
  \<^verbatim>\<open>verify_chain\<close> returns true for it, since for sequence number 1 it returns as soon as
  it has seen that there is no previous hash and never recomputes the hash.  Verification
  of the range reports no mismatch.
\<close>

theorem verify_chain_accepts_tampered_first_event:
  "sequence_number ev_a_tampered = Some 1 \<and>
   context' ev_a_tampered \<noteq> context' ev_a_stored \<and>
   event_hash ev_a_tampered = event_hash ev_a_stored \<and>
   verify_chain ev_a_tampered None \<and>
   VerifyChain [ev_a_tampered] 1 1 = None"
  by (simp add: ev_a_tampered_def ev_a_stored_def ev_a_numbered_def ev_a_def create_event_def
      verify_chain_def VerifyChain_def event_ok_def)

section \<open>Policy conditions\<close>

text \<open>
  C4, as stated, fails when an auto-deny key matches: the policy below has the condition
  \<^verbatim>\<open>env = "prod"\<close>, the context has \<^verbatim>\<open>env = "dev"\<close>, and \<^verbatim>\<open>evaluate_conditions\<close> returns
  true all the same, because \<^verbatim>\<open>after_hours\<close> matches an auto-deny condition.
\<close>

theorem evaluate_conditions_auto_deny_counterexample:
  "conditions policy_deny_after_hours = JObj [(''env'', JStr ''prod'')] \<and>
   \<not> py_eq (dict_get ctx_dev_after_hours ''env'') (JStr ''prod'') \<and>
   evaluate_conditions policy_deny_after_hours ctx_dev_after_hours = Inr True"
  by (simp add: policy_deny_after_hours_def ctx_dev_after_hours_def dict_get_def
      evaluate_conditions_def auto_deny_triggered_def)

lemma standard_conditions_dict:
  "conditions p = JObj cs \<Longrightarrow>
   standard_conditions p ctx = Inr (\<forall>(k, v) \<in> set cs. py_eq (dict_get ctx k) v)"
  by (simp add: standard_conditions_def conditions_hold_def list_all_iff)

text \<open>
  C4, amended.  \<^verbatim>\<open>evaluate_conditions\<close> returns true for a policy whose conditions are
  empty.  For a policy with a non-empty condition dict the auto-deny conditions are checked
  first: if any auto-deny key has an equal value in the context the result is true (the
  policy applies; no deny decision is returned) without the standard conditions being looked
  at; otherwise the result is true exactly when every condition key has an equal value in
  the context.  Equality is Python's \<^verbatim>\<open>==\<close>, a missing key reading as \<^verbatim>\<open>None\<close>.
\<close>

theorem evaluate_conditions_semantics:
  "(\<not> truthy (conditions p) \<longrightarrow> evaluate_conditions p ctx = Inr True) \<and>
   (conditions p = JObj cs \<and> cs \<noteq> [] \<and> \<not> truthy (auto_deny_conditions p) \<longrightarrow>
      evaluate_conditions p ctx = Inr (\<forall>(k, v) \<in> set cs. py_eq (dict_get ctx k) v)) \<and>
   (conditions p = JObj cs \<and> cs \<noteq> [] \<and> auto_deny_conditions p = JObj ad \<longrightarrow>
      evaluate_conditions p ctx =
        Inr ((\<exists>(k, v) \<in> set ad. py_eq (dict_get ctx k) v) \<or>
             (\<forall>(k, v) \<in> set cs. py_eq (dict_get ctx k) v))) \<and>
   (truthy (conditions p) \<and> auto_deny_conditions p = JObj ad \<and>
    (\<exists>(k, v) \<in> set ad. py_eq (dict_get ctx k) v) \<longrightarrow>
      evaluate_conditions p ctx = Inr True)"
proof (intro conjI impI)
  assume "\<not> truthy (conditions p)"
  then show "evaluate_conditions p ctx = Inr True" by (simp add: evaluate_conditions_def)
next
  assume a: "conditions p = JObj cs \<and> cs \<noteq> [] \<and> \<not> truthy (auto_deny_conditions p)"
  then show "evaluate_conditions p ctx = Inr (\<forall>(k, v) \<in> set cs. py_eq (dict_get ctx k) v)"
    by (simp add: evaluate_conditions_def standard_conditions_dict)
next
  assume a: "conditions p = JObj cs \<and> cs \<noteq> [] \<and> auto_deny_conditions p = JObj ad"
  then show "evaluate_conditions p ctx =
        Inr ((\<exists>(k, v) \<in> set ad. py_eq (dict_get ctx k) v) \<or>
             (\<forall>(k, v) \<in> set cs. py_eq (dict_get ctx k) v))"
    by (cases "ad = []")
      (simp_all add: evaluate_conditions_def standard_conditions_dict auto_deny_triggered_def
        list_ex_iff)
next
  assume a: "truthy (conditions p) \<and> auto_deny_conditions p = JObj ad \<and>
    (\<exists>(k, v) \<in> set ad. py_eq (dict_get ctx k) v)"
  then have "ad \<noteq> []" by auto
  with a show "evaluate_conditions p ctx = Inr True"
    by (simp add: evaluate_conditions_def auto_deny_triggered_def list_ex_iff)
qed

theorem evaluate_conditions_semantics_witness:
  "evaluate_conditions policy_unconditional ctx_dev_after_hours = Inr True \<and>
   evaluate_conditions policy_allow_prod ctx_prod_after_hours = Inr True \<and>
   evaluate_conditions policy_allow_prod ctx_dev_after_hours = Inr False \<and>
   evaluate_conditions policy_deny_after_hours ctx_dev_after_hours = Inr True"
proof -
  have "evaluate_conditions policy_unconditional ctx_dev_after_hours = Inr True"
    using evaluate_conditions_semantics [of policy_unconditional ctx_dev_after_hours "[]" "[]"]
    by (simp add: policy_unconditional_def)
  moreover have "evaluate_conditions policy_allow_prod ctx_prod_after_hours = Inr True"
    using evaluate_conditions_semantics
      [of policy_allow_prod ctx_prod_after_hours "[(''env'', JStr ''prod'')]" "[]"]
    by (simp add: policy_allow_prod_def ctx_prod_after_hours_def dict_get_def)
  moreover have "evaluate_conditions policy_allow_prod ctx_dev_after_hours = Inr False"
    using evaluate_conditions_semantics
      [of policy_allow_prod ctx_dev_after_hours "[(''env'', JStr ''prod'')]" "[]"]
    by (simp add: policy_allow_prod_def ctx_dev_after_hours_def dict_get_def)
  moreover have "evaluate_conditions policy_deny_after_hours ctx_dev_after_hours = Inr True"
    using evaluate_conditions_semantics
      [of policy_deny_after_hours ctx_dev_after_hours "[(''env'', JStr ''prod'')]"
        "[(''after_hours'', JBool True)]"]
    by (simp add: policy_deny_after_hours_def ctx_dev_after_hours_def dict_get_def)
  ultimately show ?thesis by simp
qed

section \<open>Priority order\<close>

subsection \<open>The policy listing\<close>

lemma list_control_policies_not_importable:
  "list_control_policies False ilike order_by db skip limit outcome_filter search active =
     Inl (Unhandled ImportError ''PolicyOutcome'')"
  by (simp add: list_control_policies_def)

lemma list_control_policies_outcome_filter:
  "list_control_policies True ilike order_by db skip limit (Some oc) search active =
     Inl (Unhandled AttributeError ''outcome'')"
  by (simp add: list_control_policies_def)

lemma list_control_policies_returns:
  "list_control_policies True ilike order_by db skip limit None search active =
     Inr (take limit (drop skip (order_by (matching_policies ilike db search active))))"
  by (simp add: list_control_policies_def)

lemma orders_by_priority_sort_key: "orders_by_priority (sort_key priority)"
  by (simp add: orders_by_priority_def)

lemma sorted_page:
  assumes "orders_by_priority order_by"
  shows "sorted (map priority (take limit (drop skip (order_by q))))"
proof -
  from assms have "sorted (map priority (order_by q))"
    by (simp add: orders_by_priority_def)
  then have "sorted (take limit (drop skip (map priority (order_by q))))"
    by (intro sorted_wrt_take sorted_wrt_drop)
  then show ?thesis by (simp add: take_map drop_map)
qed

subsection \<open>Gate evaluation\<close>

lemma sorted_gate_policies: "sorted (map policy_order (gate_policies g policies))"
  by (simp add: gate_policies_def)

lemma policy_id_evaluate_policy:
  "policy_id (evaluate_policy outcome_of g ctx p) = ControlPolicy.id' p"
  by (simp add: evaluate_policy_def)

lemma controls_evaluated_Evaluate:
  "controls_evaluated (Evaluate outcome_of g switches policies ctx w) =
     (if KillSwitchMode.HARD_STOP \<in> set (map mode (fetched_switches g switches)) \<or>
         list_ex blocks_writes (fetched_switches g switches) \<and> w
      then []
      else map (evaluate_policy outcome_of g ctx) (gate_policies g policies))"
  by (auto simp add: Evaluate_def execution_def Let_def)

lemma outcome_Evaluate:
  "GateExecution.outcome (Evaluate outcome_of g switches policies ctx w) =
     (if KillSwitchMode.HARD_STOP \<in> set (map mode (fetched_switches g switches))
      then GateOutcome.HARD_STOP
      else if list_ex blocks_writes (fetched_switches g switches) \<and> w then BLOCK
      else if KillSwitchMode.DEGRADE \<in> set (map mode (fetched_switches g switches))
      then GateOutcome.DEGRADE
      else aggregate (require_all_pass g)
             (map (policy_verdict outcome_of g ctx) (gate_policies g policies)))"
  by (simp add: Evaluate_def execution_def Let_def)

lemma deny_aggregate:
  assumes "require_all_pass g"
    and "p \<in> set (gate_policies g policies)"
    and "outcome_of p = PolicyOutcome.DENY"
    and "evaluate_conditions p ctx = Inr True"
  shows "aggregate (require_all_pass g)
           (map (policy_verdict outcome_of g ctx) (gate_policies g policies)) = BLOCK"
proof -
  from assms(3,4) have "policy_verdict outcome_of g ctx p = Some BLOCK"
    by (simp add: policy_verdict_def)
  with assms(2)
  have "Some BLOCK \<in> set (map (policy_verdict outcome_of g ctx) (gate_policies g policies))"
    by force
  with assms(1) show ?thesis
    by (simp add: aggregate_def)
qed

lemma deny_blocks:
  assumes "require_all_pass g"
    and "p \<in> set (gate_policies g policies)"
    and "outcome_of p = PolicyOutcome.DENY"
    and "evaluate_conditions p ctx = Inr True"
    and "KillSwitchMode.HARD_STOP \<notin> set (map mode (fetched_switches g switches))"
    and "KillSwitchMode.DEGRADE \<notin> set (map mode (fetched_switches g switches))"
  shows "GateExecution.outcome (Evaluate outcome_of g switches policies ctx w) = BLOCK"
  using assms deny_aggregate [of g p policies outcome_of ctx]
  by (simp add: outcome_Evaluate)

lemma gate_policies_scenario:
  "gate_policies gate_deploy [policy_allow_prod, policy_deny_after_hours] =
     [policy_deny_after_hours, policy_allow_prod]"
  by (simp add: gate_policies_def gate_deploy_def policy_allow_prod_def
      policy_deny_after_hours_def policy_order_def)

lemma scenario_conditions:
  "evaluate_conditions policy_deny_after_hours ctx_prod_after_hours = Inr True"
  "evaluate_conditions policy_allow_prod ctx_prod_after_hours = Inr True"
  by (simp_all add: policy_deny_after_hours_def policy_allow_prod_def ctx_prod_after_hours_def
      evaluate_conditions_def auto_deny_triggered_def standard_conditions_def
      conditions_hold_def dict_get_def)

lemma scenario_policies:
  "priority policy_deny_after_hours = 10" "priority policy_allow_prod = 20"
  "action_outcome policy_deny_after_hours = PolicyOutcome.DENY"
  "action_outcome policy_allow_prod = PolicyOutcome.ALLOW"
  "ControlPolicy.id' policy_deny_after_hours = ''d1''"
  "ControlPolicy.id' policy_allow_prod = ''a1''"
  by (simp_all add: policy_deny_after_hours_def policy_allow_prod_def action_outcome_def)

lemma scenario_switches:
  "fetched_switches gate_deploy [] = []"
  "fetched_switches gate_deploy [switch_degrade] = [switch_degrade]"
  "fetched_switches gate_deploy [switch_freeze] = [switch_freeze]"
  "mode switch_degrade = KillSwitchMode.DEGRADE" "\<not> blocks_writes switch_degrade"
  "mode switch_freeze = KillSwitchMode.HARD_STOP"
  by (simp_all add: fetched_switches_def active_switches_def gate_deploy_def switch_degrade_def
      switch_freeze_def in_scope_def is_global_def blocks_writes_def)

lemma require_all_pass_gate_deploy: "require_all_pass gate_deploy"
  by (simp add: gate_deploy_def)

lemma listing_ties:
  "list_control_policies True never_like (sort_key priority) [policy_b, policy_a] 0 100
     (None :: PolicyOutcome option) None True = Inr [policy_b, policy_a]"
  by (simp add: list_control_policies_def matching_policies_def truthy_str_def policy_a_def
      policy_b_def policy_unconditional_def)

text \<open>
  C5, as stated, fails twice.  On the policy listing: for two policies of the same
  priority, an answer to \<^verbatim>\<open>ORDER BY priority ASC\<close> may hold \<^verbatim>\<open>b\<close> before \<^verbatim>\<open>a\<close>, and then the
  listing does, against the order of the identifiers.  On the gate evaluation: with an
  active global kill switch of mode degrade (or of mode hard-stop), the gate with
  \<^verbatim>\<open>require_all_pass\<close> and the two applicable policies of priorities 10 (deny) and 20
  (allow) gives the outcome \<^verbatim>\<open>DEGRADE\<close>, having evaluated both policies (or \<^verbatim>\<open>HARD_STOP\<close>),
  not \<^verbatim>\<open>BLOCK\<close>.
\<close>

theorem priority_ordering_counterexample:
  "orders_by_priority (sort_key priority) \<and>
   priority policy_b = priority policy_a \<and>
   list_control_policies True never_like (sort_key priority) [policy_b, policy_a] 0 100
     (None :: PolicyOutcome option) None True = Inr [policy_b, policy_a] \<and>
   map ControlPolicy.id' [policy_b, policy_a] = [''b'', ''a''] \<and>
   require_all_pass gate_deploy \<and>
   priority policy_deny_after_hours = 10 \<and>
   action_outcome policy_deny_after_hours = PolicyOutcome.DENY \<and>
   evaluate_conditions policy_deny_after_hours ctx_prod_after_hours = Inr True \<and>
   priority policy_allow_prod = 20 \<and>
   action_outcome policy_allow_prod = PolicyOutcome.ALLOW \<and>
   evaluate_conditions policy_allow_prod ctx_prod_after_hours = Inr True \<and>
   GateExecution.outcome
     (Evaluate action_outcome gate_deploy [switch_degrade]
        [policy_allow_prod, policy_deny_after_hours] ctx_prod_after_hours True)
     = GateOutcome.DEGRADE \<and>
   map policy_id (controls_evaluated
     (Evaluate action_outcome gate_deploy [switch_degrade]
        [policy_allow_prod, policy_deny_after_hours] ctx_prod_after_hours True))
     = [''d1'', ''a1''] \<and>
   GateExecution.outcome
     (Evaluate action_outcome gate_deploy [switch_freeze]
        [policy_allow_prod, policy_deny_after_hours] ctx_prod_after_hours True)
     = GateOutcome.HARD_STOP"
proof -
  have ties: "priority policy_b = priority policy_a \<and>
      map ControlPolicy.id' [policy_b, policy_a] = [''b'', ''a'']"
    by (simp add: policy_a_def policy_b_def)
  have degrade: "GateExecution.outcome
      (Evaluate action_outcome gate_deploy [switch_degrade]
         [policy_allow_prod, policy_deny_after_hours] ctx_prod_after_hours True)
      = GateOutcome.DEGRADE"
    by (simp add: outcome_Evaluate scenario_switches)
  have evaluated: "map policy_id (controls_evaluated
      (Evaluate action_outcome gate_deploy [switch_degrade]
         [policy_allow_prod, policy_deny_after_hours] ctx_prod_after_hours True))
      = [''d1'', ''a1'']"
    by (simp add: controls_evaluated_Evaluate scenario_switches gate_policies_scenario
        policy_id_evaluate_policy scenario_policies)
  have hard_stop: "GateExecution.outcome
      (Evaluate action_outcome gate_deploy [switch_freeze]
         [policy_allow_prod, policy_deny_after_hours] ctx_prod_after_hours True)
      = GateOutcome.HARD_STOP"
    by (simp add: outcome_Evaluate scenario_switches)
  from ties degrade evaluated hard_stop show ?thesis
    by (simp add: orders_by_priority_sort_key listing_ties scenario_policies
        scenario_conditions require_all_pass_gate_deploy)
qed

text \<open>
  C5, amended.  As the repository stands the module of the policy listing cannot be
  imported, \<^verbatim>\<open>PolicyOutcome\<close> being undefined; with the name defined, a listing with an
  outcome filter raises \<^verbatim>\<open>AttributeError\<close> on \<^verbatim>\<open>ControlPolicy.outcome\<close>, and a listing without
  one returns the selected policies in ascending numeric priority, policies of equal
  priority in whatever order the database gives them.  A gate evaluation takes the gate's
  active policies in ascending priority, ties broken by the policy identifier, and records
  their results in that order, unless a kill switch that the gate checks stops it first
  (a hard stop, or a soft stop or read-only switch on a write).  Under \<^verbatim>\<open>require_all_pass\<close>
  an applicable deny policy among them makes the outcome \<^verbatim>\<open>BLOCK\<close> unless a kill switch
  that the gate checks has mode hard-stop or degrade: so for two applicable policies of
  priorities 10 (deny) and 20 (allow).
\<close>

theorem priority_ordering:
  "list_control_policies False ilike order_by db skip limit outcome_filter search active =
     Inl (Unhandled ImportError ''PolicyOutcome'') \<and>
   list_control_policies True ilike order_by db skip limit (Some oc) search active =
     Inl (Unhandled AttributeError ''outcome'') \<and>
   list_control_policies True ilike order_by db skip limit (None :: 'o option) search active =
     Inr (take limit (drop skip (order_by (matching_policies ilike db search active)))) \<and>
   (orders_by_priority order_by \<longrightarrow>
      sorted (map priority
        (take limit (drop skip (order_by (matching_policies ilike db search active)))))) \<and>
   sorted (map policy_order (gate_policies g policies)) \<and>
   controls_evaluated (Evaluate outcome_of g switches policies ctx w) =
     (if KillSwitchMode.HARD_STOP \<in> set (map mode (fetched_switches g switches)) \<or>
         list_ex blocks_writes (fetched_switches g switches) \<and> w
      then []
      else map (evaluate_policy outcome_of g ctx) (gate_policies g policies)) \<and>
   (require_all_pass g \<and> p \<in> set (gate_policies g policies) \<and>
    outcome_of p = PolicyOutcome.DENY \<and> evaluate_conditions p ctx = Inr True \<and>
    KillSwitchMode.HARD_STOP \<notin> set (map mode (fetched_switches g switches)) \<and>
    KillSwitchMode.DEGRADE \<notin> set (map mode (fetched_switches g switches)) \<longrightarrow>
      GateExecution.outcome (Evaluate outcome_of g switches policies ctx w) = BLOCK)"
proof (intro conjI impI)
  show "list_control_policies False ilike order_by db skip limit outcome_filter search active =
     Inl (Unhandled ImportError ''PolicyOutcome'')"
    by (rule list_control_policies_not_importable)
  show "list_control_policies True ilike order_by db skip limit (Some oc) search active =
     Inl (Unhandled AttributeError ''outcome'')"
    by (rule list_control_policies_outcome_filter)
  show "list_control_policies True ilike order_by db skip limit (None :: 'o option) search active =
     Inr (take limit (drop skip (order_by (matching_policies ilike db search active))))"
    by (rule list_control_policies_returns)
  show "sorted (map policy_order (gate_policies g policies))"
    by (rule sorted_gate_policies)
  show "controls_evaluated (Evaluate outcome_of g switches policies ctx w) =
     (if KillSwitchMode.HARD_STOP \<in> set (map mode (fetched_switches g switches)) \<or>
         list_ex blocks_writes (fetched_switches g switches) \<and> w
      then []
      else map (evaluate_policy outcome_of g ctx) (gate_policies g policies))"
    by (rule controls_evaluated_Evaluate)
next
  assume "orders_by_priority order_by"
  then show "sorted (map priority
      (take limit (drop skip (order_by (matching_policies ilike db search active)))))"
    by (rule sorted_page)
next
  assume "require_all_pass g \<and> p \<in> set (gate_policies g policies) \<and>
    outcome_of p = PolicyOutcome.DENY \<and> evaluate_conditions p ctx = Inr True \<and>
    KillSwitchMode.HARD_STOP \<notin> set (map mode (fetched_switches g switches)) \<and>
    KillSwitchMode.DEGRADE \<notin> set (map mode (fetched_switches g switches))"
  then show "GateExecution.outcome (Evaluate outcome_of g switches policies ctx w) = BLOCK"
    by (intro deny_blocks [of g p policies outcome_of ctx switches]) simp_all
qed

theorem priority_ordering_witness:
  "orders_by_priority (sort_key priority) \<and>
   list_control_policies True never_like (sort_key priority)
     [policy_allow_prod, policy_deny_after_hours] 0 100 (None :: PolicyOutcome option) None True
     = Inr [policy_deny_after_hours, policy_allow_prod] \<and>
   sorted (map priority [policy_deny_after_hours, policy_allow_prod]) \<and>
   require_all_pass gate_deploy \<and>
   policy_deny_after_hours \<in>
     set (gate_policies gate_deploy [policy_allow_prod, policy_deny_after_hours]) \<and>
   action_outcome policy_deny_after_hours = PolicyOutcome.DENY \<and>
   evaluate_conditions policy_deny_after_hours ctx_prod_after_hours = Inr True \<and>
   KillSwitchMode.HARD_STOP \<notin> set (map mode (fetched_switches gate_deploy [])) \<and>
   KillSwitchMode.DEGRADE \<notin> set (map mode (fetched_switches gate_deploy [])) \<and>
   GateExecution.outcome
     (Evaluate action_outcome gate_deploy [] [policy_allow_prod, policy_deny_after_hours]
        ctx_prod_after_hours True) = BLOCK \<and>
   map policy_id (controls_evaluated
     (Evaluate action_outcome gate_deploy [] [policy_allow_prod, policy_deny_after_hours]
        ctx_prod_after_hours True)) = [''d1'', ''a1''] \<and>
   map ControlPolicy.id' (gate_policies gate_ties [policy_b, policy_a]) = [''a'', ''b'']"
proof -
  note inst = priority_ordering
    [where order_by = "sort_key priority" and ilike = never_like
      and db = "[policy_allow_prod, policy_deny_after_hours]" and skip = 0 and limit = 100
      and search = None and active = True and g = gate_deploy
      and policies = "[policy_allow_prod, policy_deny_after_hours]"
      and outcome_of = action_outcome and switches = "[]" and ctx = ctx_prod_after_hours
      and w = True and p = policy_deny_after_hours]
  have o: "orders_by_priority (sort_key priority)"
    by (rule orders_by_priority_sort_key)
  have h: "require_all_pass gate_deploy \<and>
      policy_deny_after_hours \<in>
        set (gate_policies gate_deploy [policy_allow_prod, policy_deny_after_hours]) \<and>
      action_outcome policy_deny_after_hours = PolicyOutcome.DENY \<and>
      evaluate_conditions policy_deny_after_hours ctx_prod_after_hours = Inr True \<and>
      KillSwitchMode.HARD_STOP \<notin> set (map mode (fetched_switches gate_deploy [])) \<and>
      KillSwitchMode.DEGRADE \<notin> set (map mode (fetched_switches gate_deploy []))"
    using require_all_pass_gate_deploy
    by (simp add: gate_policies_scenario scenario_conditions scenario_policies
        scenario_switches)
  have page: "take 100 (drop 0 (sort_key priority
      (matching_policies never_like [policy_allow_prod, policy_deny_after_hours] None True))) =
      [policy_deny_after_hours, policy_allow_prod]"
    by (simp add: matching_policies_def truthy_str_def policy_allow_prod_def
        policy_deny_after_hours_def)
  from inst [THEN conjunct2, THEN conjunct2, THEN conjunct1]
  have "list_control_policies True never_like (sort_key priority)
      [policy_allow_prod, policy_deny_after_hours] 0 100 (None :: PolicyOutcome option) None True
      = Inr (take 100 (drop 0 (sort_key priority
          (matching_policies never_like [policy_allow_prod, policy_deny_after_hours] None True))))"
    .
  then have listing: "list_control_policies True never_like (sort_key priority)
      [policy_allow_prod, policy_deny_after_hours] 0 100 (None :: PolicyOutcome option) None True
      = Inr [policy_deny_after_hours, policy_allow_prod]"
    by (simp only: page)
  from inst [THEN conjunct2, THEN conjunct2, THEN conjunct2, THEN conjunct1] o
  have "sorted (map priority (take 100 (drop 0 (sort_key priority
      (matching_policies never_like [policy_allow_prod, policy_deny_after_hours] None True)))))"
    by (rule mp)
  then have s: "sorted (map priority [policy_deny_after_hours, policy_allow_prod])"
    by (simp only: page)
  from inst [THEN conjunct2, THEN conjunct2, THEN conjunct2, THEN conjunct2, THEN conjunct2,
      THEN conjunct2] h
  have b: "GateExecution.outcome
      (Evaluate action_outcome gate_deploy [] [policy_allow_prod, policy_deny_after_hours]
         ctx_prod_after_hours True) = BLOCK"
    by (rule mp)
  from inst [THEN conjunct2, THEN conjunct2, THEN conjunct2, THEN conjunct2, THEN conjunct2,
      THEN conjunct1]
  have "controls_evaluated
      (Evaluate action_outcome gate_deploy [] [policy_allow_prod, policy_deny_after_hours]
         ctx_prod_after_hours True) =
      (if KillSwitchMode.HARD_STOP \<in> set (map mode (fetched_switches gate_deploy [])) \<or>
          list_ex blocks_writes (fetched_switches gate_deploy []) \<and> True
       then []
       else map (evaluate_policy action_outcome gate_deploy ctx_prod_after_hours)
              (gate_policies gate_deploy [policy_allow_prod, policy_deny_after_hours]))"
    .
  then have c: "map policy_id (controls_evaluated
      (Evaluate action_outcome gate_deploy [] [policy_allow_prod, policy_deny_after_hours]
         ctx_prod_after_hours True)) = [''d1'', ''a1'']"
    by (simp add: scenario_switches gate_policies_scenario policy_id_evaluate_policy
        scenario_policies)
  have ties: "map ControlPolicy.id' (gate_policies gate_ties [policy_b, policy_a]) = [''a'', ''b'']"
    by (simp add: gate_policies_def gate_ties_def gate_deploy_def policy_a_def policy_b_def
        policy_unconditional_def policy_order_def)
  from o h listing s b c ties show ?thesis by simp
qed

section \<open>Submitting a change request\<close>

lemma ChangeStatus_member_names:
  "ChangeStatus_member ''DRAFT'' = Some DRAFT"
  "ChangeStatus_member ''SUBMITTED'' = Some SUBMITTED"
  "ChangeStatus_member ''PENDING_APPROVAL'' = Some PENDING_APPROVAL"
  "ChangeStatus_member ''APPROVED'' = Some APPROVED"
  "ChangeStatus_member ''SCHEDULED'' = Some SCHEDULED"
  "ChangeStatus_member ''REJECTED'' = Some REJECTED"
  "ChangeStatus_member ''IMPLEMENTED'' = None"
  "ChangeStatus_member ''VALIDATED'' = None"
  by (simp_all add: ChangeStatus_member_def)

lemma first_with_id_id:
  "first_with_id request_id db = Inr cr \<Longrightarrow> ChangeRequest.id' cr = request_id"
  by (auto simp add: first_with_id_def find_Some_iff split: option.splits)

lemma first_with_id_single:
  "first_with_id (ChangeRequest.id' cr) [cr] = Inr cr"
  by (simp add: first_with_id_def)

lemma required_fields_present_raises:
  "required_fields_present cr = Inl (Unhandled AttributeError ''justification'')"
  by (simp add: required_fields_present_def undeclared_def)

text \<open>
  No request can be submitted, whatever the name \<^verbatim>\<open>ChangeRequestStatus\<close> is bound to: the
  handler raises, and the table is left as it was.
\<close>

lemma submit_for_approval_never_returns:
  "\<exists>e. submit_for_approval ChangeRequestStatus db now request_id = (db, Inl e)"
proof (cases ChangeRequestStatus)
  case None
  then show ?thesis
    by (simp add: submit_for_approval_def imported_def respond_def)
next
  case (Some cls)
  show ?thesis
  proof (cases "first_with_id request_id db")
    case (Inl e)
    with Some show ?thesis
      by (simp add: submit_for_approval_def imported_def respond_def)
  next
    case (Inr cr)
    show ?thesis
    proof (cases "cls ''DRAFT''")
      case None
      with Some Inr show ?thesis
        by (simp add: submit_for_approval_def imported_def respond_def enum_member_def)
    next
      case (Some draft)
      with \<open>ChangeRequestStatus = Some cls\<close> Inr show ?thesis
        by (simp add: submit_for_approval_def imported_def respond_def enum_member_def
            required_fields_present_raises)
    qed
  qed
qed

lemma submit_for_approval_draft:
  assumes "first_with_id request_id db = Inr cr" and "status cr = DRAFT"
  shows "submit_for_approval (Some ChangeStatus_member) db now request_id =
           (db, Inl (Unhandled AttributeError ''justification''))"
  using assms
  by (simp add: submit_for_approval_def imported_def respond_def enum_member_def
      ChangeStatus_member_names required_fields_present_raises)

text \<open>
  C6.  The request \<^verbatim>\<open>cr-1\<close> is in \<^verbatim>\<open>DRAFT\<close> and has its description, rationale, risk level
  and rollback procedure populated.  Submitting it does not succeed and does not make it
  \<^verbatim>\<open>SUBMITTED\<close>: as the repository stands the router cannot be imported; with
  \<^verbatim>\<open>ChangeRequestStatus\<close> bound to the model's \<^verbatim>\<open>ChangeStatus\<close> the handler raises
  \<^verbatim>\<open>AttributeError\<close> on \<^verbatim>\<open>change_request.justification\<close>, which the class does not declare.
  The request is left in \<^verbatim>\<open>DRAFT\<close>.  The rationale and the rollback procedure are never read,
  and the status that the handler would set is \<^verbatim>\<open>PENDING_APPROVAL\<close>.
\<close>

theorem submit_for_approval_raises:
  "status cr_draft = DRAFT \<and>
   description cr_draft = Some ''Rotate the signing key'' \<and>
   rationale cr_draft = Some ''Key is a year old'' \<and>
   risk_level cr_draft = Some LOW \<and>
   rollback_procedure cr_draft = JObj [(''steps'', JList [JStr ''restore the old key''])] \<and>
   submit_for_approval None [cr_draft] dt_2025_01_01 ''cr-1'' =
     ([cr_draft], Inl (Unhandled ImportError ''ChangeRequestStatus'')) \<and>
   submit_for_approval (Some ChangeStatus_member) [cr_draft] dt_2025_01_01 ''cr-1'' =
     ([cr_draft], Inl (Unhandled AttributeError ''justification''))"
proof -
  have f: "first_with_id ''cr-1'' [cr_draft] = Inr cr_draft"
    by (simp add: first_with_id_def cr_draft_def)
  have "submit_for_approval None [cr_draft] dt_2025_01_01 ''cr-1'' =
      ([cr_draft], Inl (Unhandled ImportError ''ChangeRequestStatus''))"
    by (simp add: submit_for_approval_def imported_def respond_def)
  moreover have "submit_for_approval (Some ChangeStatus_member) [cr_draft] dt_2025_01_01 ''cr-1'' =
      ([cr_draft], Inl (Unhandled AttributeError ''justification''))"
    by (rule submit_for_approval_draft [OF f]) (simp add: cr_draft_def)
  ultimately show ?thesis
    by (simp add: cr_draft_def)
qed

section \<open>Risk levels and approval\<close>

lemma risk_level_checks:
  "can_auto_approve cr \<longleftrightarrow> risk_level cr = Some LOW"
  "requires_multi_stage_approval cr \<longleftrightarrow>
     risk_level cr = Some MEDIUM \<or> risk_level cr = Some HIGH \<or> risk_level cr = Some CRITICAL"
  by (simp_all add: can_auto_approve_def requires_multi_stage_approval_def)

text \<open>
  With \<^verbatim>\<open>ChangeRequestStatus\<close> bound to the model's \<^verbatim>\<open>ChangeStatus\<close>, a request in
  \<^verbatim>\<open>PENDING_APPROVAL\<close> is approved whatever its risk level and its review columns hold; one
  in another state is refused.  The approver is kept in \<^verbatim>\<open>approved_by\<close>, which is no column.
\<close>

lemma approve_change_request_pending:
  assumes "first_with_id request_id db = Inr cr" and "status cr = PENDING_APPROVAL"
  shows "approve_change_request (Some ChangeStatus_member) db now request_id data =
           (commit (cr\<lparr>status := APPROVED, approved_at := Some now,
                       approval_notes := dict_get data ''approval_notes''\<rparr>) db,
            Inr (cr\<lparr>status := APPROVED, approved_at := Some now,
                    approval_notes := dict_get data ''approval_notes''\<rparr>,
                 [(''approved_by'', JsonValue (dict_get data ''approver_id''))]))"
  using assms
  by (simp add: approve_change_request_def imported_def respond_def enum_member_def
      ChangeStatus_member_names)

lemma approve_change_request_not_pending:
  assumes "first_with_id request_id db = Inr cr" and "status cr \<noteq> PENDING_APPROVAL"
  shows "approve_change_request (Some ChangeStatus_member) db now request_id data =
           (db, Inl (HTTPException 400 ''Can only approve PENDING_APPROVAL requests''))"
  using assms
  by (simp add: approve_change_request_def imported_def respond_def enum_member_def
      ChangeStatus_member_names)

text \<open>
  C7.  The request \<^verbatim>\<open>cr-1\<close> has risk level \<^verbatim>\<open>LOW\<close>, so that \<^verbatim>\<open>can_auto_approve\<close> holds, and
  all the fields that the claim requires; submitting it raises and leaves it in \<^verbatim>\<open>DRAFT\<close>:
  it is not approved and does not reach \<^verbatim>\<open>SCHEDULED\<close>.  The request \<^verbatim>\<open>cr-2\<close> has risk level
  \<^verbatim>\<open>MEDIUM\<close>, so that \<^verbatim>\<open>requires_multi_stage_approval\<close> holds, is in \<^verbatim>\<open>PENDING_APPROVAL\<close> and
  has no reviewer and no review time.  As the repository stands, approving it raises
  \<^verbatim>\<open>ImportError\<close>; with \<^verbatim>\<open>ChangeRequestStatus\<close> bound to the model's \<^verbatim>\<open>ChangeStatus\<close> the
  approval succeeds, and the request is stored in \<^verbatim>\<open>APPROVED\<close> with no reviewer and no
  approver id.  No handler calls either check.
\<close>

theorem approve_without_review:
  "can_auto_approve cr_draft \<and>
   submit_for_approval (Some ChangeStatus_member) [cr_draft] dt_2025_01_01 ''cr-1'' =
     ([cr_draft], Inl (Unhandled AttributeError ''justification'')) \<and>
   status cr_draft = DRAFT \<and>
   requires_multi_stage_approval cr_medium_pending \<and>
   status cr_medium_pending = PENDING_APPROVAL \<and>
   reviewer_id cr_medium_pending = None \<and>
   reviewed_at cr_medium_pending = None \<and>
   approve_change_request None [cr_medium_pending] dt_2025_01_02 ''cr-2'' approval_data =
     ([cr_medium_pending], Inl (Unhandled ImportError ''ChangeRequestStatus'')) \<and>
   approve_change_request (Some ChangeStatus_member) [cr_medium_pending] dt_2025_01_02 ''cr-2''
     approval_data =
     ([cr_medium_approved],
      Inr (cr_medium_approved, [(''approved_by'', JsonValue (JStr ''cto''))])) \<and>
   status cr_medium_approved = APPROVED \<and>
   reviewer_id cr_medium_approved = None \<and>
   reviewed_at cr_medium_approved = None \<and>
   approver_id cr_medium_approved = None"
proof -
  have f1: "first_with_id ''cr-1'' [cr_draft] = Inr cr_draft"
    by (simp add: first_with_id_def cr_draft_def)
  have s: "submit_for_approval (Some ChangeStatus_member) [cr_draft] dt_2025_01_01 ''cr-1'' =
      ([cr_draft], Inl (Unhandled AttributeError ''justification''))"
    by (rule submit_for_approval_draft [OF f1]) (simp add: cr_draft_def)
  have f2: "first_with_id ''cr-2'' [cr_medium_pending] = Inr cr_medium_pending"
    by (simp add: first_with_id_def cr_medium_pending_def)
  have p: "status cr_medium_pending = PENDING_APPROVAL"
    by (simp add: cr_medium_pending_def)
  have i: "approve_change_request None [cr_medium_pending] dt_2025_01_02 ''cr-2'' approval_data =
      ([cr_medium_pending], Inl (Unhandled ImportError ''ChangeRequestStatus''))"
    by (simp add: approve_change_request_def imported_def respond_def)
  have a: "approve_change_request (Some ChangeStatus_member) [cr_medium_pending] dt_2025_01_02
      ''cr-2'' approval_data =
      ([cr_medium_approved],
       Inr (cr_medium_approved, [(''approved_by'', JsonValue (JStr ''cto''))]))"
    unfolding approve_change_request_pending [OF f2 p]
    by (simp add: cr_medium_approved_def approval_data_def dict_get_def)
  have fields: "can_auto_approve cr_draft \<and> status cr_draft = DRAFT \<and>
      requires_multi_stage_approval cr_medium_pending \<and>
      reviewer_id cr_medium_pending = None \<and> reviewed_at cr_medium_pending = None \<and>
      status cr_medium_approved = APPROVED \<and> reviewer_id cr_medium_approved = None \<and>
      reviewed_at cr_medium_approved = None \<and> approver_id cr_medium_approved = None"
    by (simp add: can_auto_approve_def requires_multi_stage_approval_def cr_draft_def
        cr_medium_pending_def cr_medium_approved_def)
  from s p i a fields show ?thesis by simp
qed

section \<open>The execution window\<close>

lemma is_within_execution_window_iff:
  "is_within_execution_window cr now \<longleftrightarrow>
     (\<exists>s e. scheduled_start cr = Some s \<and> scheduled_end cr = Some e \<and>
            dt_le s now \<and> dt_le now e)"
  by (auto simp add: is_within_execution_window_def)

text \<open>
  With \<^verbatim>\<open>ChangeRequestStatus\<close> bound to the model's \<^verbatim>\<open>ChangeStatus\<close>, which has no member
  \<^verbatim>\<open>IMPLEMENTED\<close>, \<^verbatim>\<open>mark_implemented\<close> never succeeds, and what it raises depends on the
  request's status alone: not on its window, not on the clock.
\<close>

lemma mark_implemented_raises:
  "mark_implemented (Some ChangeStatus_member) db now request_id data =
     (db, Inl (case first_with_id request_id db of
                 Inl e \<Rightarrow> e
               | Inr cr \<Rightarrow>
                   if status cr = APPROVED then Unhandled AttributeError ''IMPLEMENTED''
                   else HTTPException 400 ''Can only implement APPROVED requests''))"
  by (cases "first_with_id request_id db")
    (simp_all add: mark_implemented_def imported_def respond_def enum_member_def
      ChangeStatus_member_names)

lemma mark_implemented_not_importable:
  "mark_implemented None db now request_id data =
     (db, Inl (Unhandled ImportError ''ChangeRequestStatus''))"
  by (simp add: mark_implemented_def imported_def respond_def)

text \<open>
  C8.  The request \<^verbatim>\<open>cr-4\<close> is approved, with the window from 1 January to 2 January 2025.
  An attempt to implement it on 3 January, outside the window, is refused, but by no
  window check: as the repository stands the router cannot be imported, and with
  \<^verbatim>\<open>ChangeRequestStatus\<close> bound to the model's \<^verbatim>\<open>ChangeStatus\<close> the handler raises
  \<^verbatim>\<open>AttributeError\<close> on \<^verbatim>\<open>ChangeRequestStatus.IMPLEMENTED\<close>.  The attempt on 2 January, within
  the window, is refused in the same way.  The request is left as it was.
\<close>

theorem mark_implemented_ignores_window:
  "status cr_approved = APPROVED \<and>
   scheduled_start cr_approved = Some dt_2025_01_01 \<and>
   scheduled_end cr_approved = Some dt_2025_01_02 \<and>
   \<not> is_within_execution_window cr_approved dt_2025_01_03 \<and>
   mark_implemented None [cr_approved] dt_2025_01_03 ''cr-4'' implementation_data =
     ([cr_approved], Inl (Unhandled ImportError ''ChangeRequestStatus'')) \<and>
   mark_implemented (Some ChangeStatus_member) [cr_approved] dt_2025_01_03 ''cr-4''
     implementation_data =
     ([cr_approved], Inl (Unhandled AttributeError ''IMPLEMENTED'')) \<and>
   is_within_execution_window cr_approved dt_2025_01_02 \<and>
   mark_implemented (Some ChangeStatus_member) [cr_approved] dt_2025_01_02 ''cr-4''
     implementation_data =
     ([cr_approved], Inl (Unhandled AttributeError ''IMPLEMENTED''))"
proof -
  have f: "first_with_id ''cr-4'' [cr_approved] = Inr cr_approved"
    by (simp add: first_with_id_def cr_approved_def)
  have a: "status cr_approved = APPROVED \<and>
      scheduled_start cr_approved = Some dt_2025_01_01 \<and>
      scheduled_end cr_approved = Some dt_2025_01_02"
    by (simp add: cr_approved_def)
  have w: "\<not> is_within_execution_window cr_approved dt_2025_01_03 \<and>
      is_within_execution_window cr_approved dt_2025_01_02"
    by (simp add: is_within_execution_window_def a dt_le_def dt_tuple_def dt_2025_01_01_def
        dt_2025_01_02_def dt_2025_01_03_def)
  from f a w show ?thesis
    by (simp add: mark_implemented_raises mark_implemented_not_importable)
qed

subsection \<open>Requests without a window\<close>

text \<open>
  C10.  A change request whose \<^verbatim>\<open>scheduled_start\<close> or \<^verbatim>\<open>scheduled_end\<close> is unset is
  within its execution window at no time: \<^verbatim>\<open>is_within_execution_window\<close> returns false
  whatever the clock reads.
\<close>

theorem unscheduled_never_in_window:
  "scheduled_start cr = None \<or> scheduled_end cr = None \<Longrightarrow>
   \<not> is_within_execution_window cr now"
  by (simp add: is_within_execution_window_def)

theorem unscheduled_never_in_window_witness:
  "(scheduled_start cr_draft = None \<or> scheduled_end cr_draft = None) \<and>
   \<not> is_within_execution_window cr_draft dt_2025_01_02"
proof -
  have h: "scheduled_start cr_draft = None \<or> scheduled_end cr_draft = None"
    by (simp add: cr_draft_def)
  from h unscheduled_never_in_window [OF h, of dt_2025_01_02] show ?thesis by simp
qed

end
